theory Spec2Isabelle
  imports Main "HOL-Library.Multiset"
begin

section \<open>Campus Lost and Found: the request handlers\<close>

text \<open>
  The repository holds three generations of one Express server. The theory embeds the
  handlers of two of them:
  \<^item> \<^verbatim>\<open>src/unnamed/part_000\<close>: the latest server; universities live in the database,
    \<^verbatim>\<open>/items\<close> is behind a login check, items can be edited, and the password is stored and
    compared as plain text (the schema says so: \<^verbatim>\<open>// Storing Plain Text\<close>). Its handlers
    carry the suffix \<open>000\<close>.
  \<^item> \<^verbatim>\<open>src/unnamed/part_001\<close>: the server before it; the universities are a constant list
    and the password goes through bcrypt. Its handlers carry the suffix \<open>001\<close>.

  Conventions of the embedding.
  \<^item> A JavaScript string is the list of its UTF-16 code units, each a number; \<open>js\<close> turns
    a literal of the theory into one. The constant texts the server sends stay literals.
  \<^item> A field of a request body or query string is a \<open>jsstring option\<close>; \<open>None\<close> is
    JavaScript's \<^verbatim>\<open>undefined\<close> (the field was not sent).
  \<^item> A collection is the list of its documents in insertion order. An ObjectId is an
    opaque number. The \<^verbatim>\<open>:id\<close> of a route is a string, and the cast that
    \<^verbatim>\<open>Item.findById\<close> applies to it is a parameter: \<open>None\<close> is the \<^verbatim>\<open>CastError\<close> thrown for
    a string that is no ObjectId. The id of a new document and the clock are inputs of a
    handler.
  \<^item> A filter on a field that was not sent finds no document, every stored email being a
    string. Documents with the same creation time come in some order; the model fixes one.
  \<^item> The session of the requesting client is a component of the state.
  \<^item> bcrypt, the image host and the regular-expression engine are not code of the
    repository: they are parameters of the handlers that call them.
  \<^item> Every \<^verbatim>\<open>try { ... } catch\<close> of the source is a branch on a value of type \<open>db_error + 'a\<close>.
\<close>

subsection \<open>JavaScript values\<close>

type_synonym jschar = nat

type_synonym jsstring = "jschar list"

definition js :: "string \<Rightarrow> jsstring" where
  "js v = map of_char v"

text \<open>\<^verbatim>\<open>if (x)\<close> on a form field: \<^verbatim>\<open>undefined\<close> and the empty string are falsy.\<close>

fun truthy :: "jsstring option \<Rightarrow> bool" where
  "truthy None = False"
| "truthy (Some v) = (v \<noteq> [])"

text \<open>A field inside a template literal: \<^verbatim>\<open>`${undefined}`\<close> is the text \<^verbatim>\<open>undefined\<close>.\<close>

fun interpolate :: "jsstring option \<Rightarrow> jsstring" where
  "interpolate None = js ''undefined''"
| "interpolate (Some v) = v"

text \<open>
  The code points that \<^verbatim>\<open>String.prototype.trim\<close> removes: the white space of ECMAScript
  (tab, vertical tab, form feed, space, no-break space, the byte order mark and the space
  separators of Unicode) and its line terminators (line feed, carriage return, line and
  paragraph separator). All of them are single code units.
\<close>

definition isWhiteSpace :: "jschar \<Rightarrow> bool" where
  "isWhiteSpace c =
     (c \<in> set [0x09, 0x0A, 0x0B, 0x0C, 0x0D, 0x20, 0xA0, 0x1680, 0x2028, 0x2029, 0x202F,
               0x205F, 0x3000, 0xFEFF]
      \<or> (0x2000 \<le> c \<and> c \<le> 0x200A))"

text \<open>\<^verbatim>\<open>String.prototype.trim\<close>.\<close>

definition trim :: "jsstring \<Rightarrow> jsstring" where
  "trim v = rev (dropWhile isWhiteSpace (rev (dropWhile isWhiteSpace v)))"

text \<open>Letter case, for the letters of ASCII.\<close>

definition toLower :: "jschar \<Rightarrow> jschar" where
  "toLower c = (if 65 \<le> c \<and> c \<le> 90 then c + 32 else c)"

definition lower :: "jsstring \<Rightarrow> jsstring" where
  "lower v = map toLower v"

subsection \<open>The schemas (part\_000 lines 33-57, part\_001 lines 35-53)\<close>

type_synonym oid = nat

record user =
  user_id :: oid
  user_name :: jsstring
  user_email :: jsstring
  user_password :: jsstring

record item =
  item_id :: oid
  name :: jsstring
  description :: jsstring
  status :: jsstring
  category :: jsstring
  university :: jsstring
  imageUrl :: jsstring
  contactEmail :: jsstring
  contactPhone :: jsstring
  reportedBy :: oid
  createdAt :: nat
  updatedAt :: nat

text \<open>\<^verbatim>\<open>req.session.user = { id, name, email }\<close>.\<close>

record session_user =
  sess_id :: oid
  sess_name :: jsstring
  sess_email :: jsstring

text \<open>
  The three collections and the session of the client. A university document has the
  single field \<^verbatim>\<open>name\<close>, so the collection is the list of names.
\<close>

record app_state =
  users :: "user list"
  items :: "item list"
  universities :: "jsstring list"
  session :: "session_user option"

datatype db_error = ValidationError | DuplicateKey | UploadError | RegexError | CastError

datatype response =
    Redirect string
  | Send nat string
  | SendError nat string db_error
  | RenderLogin "string option"
  | RenderItems "item list" jsstring "jsstring option" "jsstring option"

text \<open>
  \<open>Send code body\<close> is \<^verbatim>\<open>res.status(code).send(body)\<close> (200 when the source sets no
  status); \<open>SendError code body e\<close> sends \<open>body\<close> followed by the message of \<open>e\<close>;
  \<open>RenderLogin error\<close> is \<^verbatim>\<open>res.render('login', { error })\<close>; \<open>RenderItems\<close> carries
  \<^verbatim>\<open>{ items, university, currentStatus, searchTerm }\<close>.
\<close>

subsection \<open>What the schema does to a document\<close>

text \<open>
  A field assigned \<^verbatim>\<open>undefined\<close> is unset, and \<^verbatim>\<open>required: true\<close> rejects an unset string
  as it rejects the empty one; the model keeps the empty string for both.
  \<^verbatim>\<open>trim: true\<close> trims the assigned string.
\<close>

fun assigned :: "jsstring option \<Rightarrow> jsstring" where
  "assigned None = []"
| "assigned (Some v) = v"

definition assignedTrim :: "jsstring option \<Rightarrow> jsstring" where
  "assignedTrim x = trim (assigned x)"

text \<open>\<^verbatim>\<open>User\<close>: three required strings, a unique index on \<^verbatim>\<open>email\<close>.\<close>

definition validUser :: "user \<Rightarrow> bool" where
  "validUser u = (user_name u \<noteq> [] \<and> user_email u \<noteq> [] \<and> user_password u \<noteq> [])"

definition saveUser :: "user list \<Rightarrow> user \<Rightarrow> db_error + user list" where
  "saveUser us u =
     (if \<not> validUser u then Inl ValidationError
      else if user_email u \<in> set (map user_email us) then Inl DuplicateKey
      else Inr (us @ [u]))"

text \<open>\<^verbatim>\<open>User.findOne({ email })\<close>: the first document whose email is the given string.\<close>

definition findOneByEmail :: "user list \<Rightarrow> jsstring option \<Rightarrow> user option" where
  "findOneByEmail us e = find (\<lambda>u. Some (user_email u) = e) us"

text \<open>\<^verbatim>\<open>Item\<close>: every field required, \<^verbatim>\<open>status\<close> one of two words.\<close>

definition validItem :: "item \<Rightarrow> bool" where
  "validItem i =
     (name i \<noteq> [] \<and> description i \<noteq> [] \<and> status i \<in> set [js ''Lost'', js ''Found'']
      \<and> category i \<noteq> [] \<and> university i \<noteq> [] \<and> imageUrl i \<noteq> []
      \<and> contactEmail i \<noteq> [] \<and> contactPhone i \<noteq> [])"

text \<open>
  \<^verbatim>\<open>Item.findById(req.params.id)\<close>: the string is cast to an ObjectId first, and the call
  throws when the cast fails; otherwise it yields the document with that id, or \<^verbatim>\<open>null\<close>.
\<close>

definition findById ::
  "(jsstring \<Rightarrow> oid option) \<Rightarrow> item list \<Rightarrow> jsstring \<Rightarrow> db_error + item option" where
  "findById cast xs rid =
     (case cast rid of
        None \<Rightarrow> Inl CastError
      | Some i \<Rightarrow> Inr (find (\<lambda>x. item_id x = i) xs))"

fun replaceById :: "oid \<Rightarrow> item \<Rightarrow> item list \<Rightarrow> item list" where
  "replaceById i new [] = []"
| "replaceById i new (x # xs) = (if item_id x = i then new # xs else x # replaceById i new xs)"

text \<open>\<^verbatim>\<open>Item.findByIdAndDelete(req.params.id)\<close> removes one document.\<close>

fun deleteById :: "oid \<Rightarrow> item list \<Rightarrow> item list" where
  "deleteById i [] = []"
| "deleteById i (x # xs) = (if item_id x = i then xs else x # deleteById i xs)"

definition findByIdAndDelete ::
  "(jsstring \<Rightarrow> oid option) \<Rightarrow> item list \<Rightarrow> jsstring \<Rightarrow> db_error + item list" where
  "findByIdAndDelete cast xs rid =
     (case cast rid of
        None \<Rightarrow> Inl CastError
      | Some i \<Rightarrow> Inr (deleteById i xs))"

text \<open>
  \<^verbatim>\<open>item.save()\<close> on a loaded document \<open>old\<close> changed into \<open>new\<close>: validation, then
  \<^verbatim>\<open>updatedAt\<close> is set when a field was modified (\<^verbatim>\<open>timestamps: true\<close>).
\<close>

definition saveItem :: "nat \<Rightarrow> item list \<Rightarrow> item \<Rightarrow> item \<Rightarrow> db_error + item list" where
  "saveItem now xs old new =
     (if \<not> validItem new then Inl ValidationError
      else Inr (replaceById (item_id old)
                 (if new = old then new else new\<lparr>updatedAt := now\<rparr>) xs))"

text \<open>\<^verbatim>\<open>University\<close>: a required, trimmed name with a unique index.\<close>

definition saveUniversity :: "jsstring list \<Rightarrow> jsstring \<Rightarrow> db_error + jsstring list" where
  "saveUniversity us n =
     (let n' = trim n in
      if n' = [] then Inl ValidationError
      else if n' \<in> set us then Inl DuplicateKey
      else Inr (us @ [n']))"

subsection \<open>Regular expressions\<close>

text \<open>
  The engine behind \<^verbatim>\<open>new RegExp(p, 'i')\<close> and \<^verbatim>\<open>{ $regex: p, $options: 'i' }\<close> is a
  parameter. It takes the pattern and the flags, and answers \<open>None\<close> when the pattern is
  ill-formed and otherwise the set of strings in which the pattern finds a match. The
  database does the matching.
\<close>

type_synonym regex_engine = "jsstring \<Rightarrow> string \<Rightarrow> (jsstring \<Rightarrow> bool) option"

text \<open>
  \<open>rxLite\<close> is that engine on a fragment: a pattern made of ordinary ASCII characters and
  the wildcard \<^verbatim>\<open>.\<close>, with an optional \<^verbatim>\<open>^\<close> in front and an optional \<^verbatim>\<open>$\<close> at the end. The
  wildcard stands for any character but the line feed, \<^verbatim>\<open>$\<close> holds at the end of the string
  and before a line feed that ends it, and the flag \<^verbatim>\<open>i\<close> makes the letters of ASCII match in
  either case. \<open>rxLite\<close> answers \<open>None\<close> on every other pattern. The concrete runs below use
  it, on ASCII strings.
\<close>

definition metachars :: "jschar list" where
  "metachars = map of_char [CHR 0x5C, CHR ''^'', CHR ''$'', CHR ''.'', CHR ''|'', CHR ''?'',
                 CHR ''*'', CHR ''+'', CHR ''('', CHR '')'', CHR ''['', CHR '']'', CHR ''{'',
                 CHR ''}'']"

definition atomMatch :: "bool \<Rightarrow> jschar \<Rightarrow> jschar \<Rightarrow> bool" where
  "atomMatch ci p c =
     (if p = of_char (CHR ''.'') then c \<noteq> 0x0A
      else if ci then toLower p = toLower c
      else p = c)"

fun matchHere :: "bool \<Rightarrow> jsstring \<Rightarrow> jsstring \<Rightarrow> bool" where
  "matchHere ci [] v = True"
| "matchHere ci (p # ps) [] = False"
| "matchHere ci (p # ps) (c # cs) = (atomMatch ci p c \<and> matchHere ci ps cs)"

fun matchWhole :: "bool \<Rightarrow> jsstring \<Rightarrow> jsstring \<Rightarrow> bool" where
  "matchWhole ci [] v = (v = [] \<or> v = [0x0A])"
| "matchWhole ci (p # ps) [] = False"
| "matchWhole ci (p # ps) (c # cs) = (atomMatch ci p c \<and> matchWhole ci ps cs)"

fun searchWith :: "(jsstring \<Rightarrow> bool) \<Rightarrow> jsstring \<Rightarrow> bool" where
  "searchWith f [] = f []"
| "searchWith f (c # cs) = (f (c # cs) \<or> searchWith f cs)"

definition rxLite :: regex_engine where
  "rxLite p flags =
     (let ci = (CHR ''i'' \<in> set flags);
          front = (p \<noteq> [] \<and> hd p = of_char (CHR ''^''));
          p1 = (if front then tl p else p);
          rear = (p1 \<noteq> [] \<and> last p1 = of_char (CHR ''$''));
          body = (if rear then butlast p1 else p1)
      in if \<exists>c \<in> set body. 128 \<le> c \<or> (c \<noteq> of_char (CHR ''.'') \<and> c \<in> set metachars)
         then None
         else Some (\<lambda>v. if front then (if rear then matchWhole ci body v else matchHere ci body v)
                         else (if rear then searchWith (matchWhole ci body) v
                               else searchWith (matchHere ci body) v)))"

text \<open>
  The reading the specification gives of the name search: the name contains the search
  string, letter case ignored.
\<close>

fun prefixCI :: "jsstring \<Rightarrow> jsstring \<Rightarrow> bool" where
  "prefixCI [] v = True"
| "prefixCI (p # ps) [] = False"
| "prefixCI (p # ps) (c # cs) = (toLower p = toLower c \<and> prefixCI ps cs)"

definition containsCI :: "jsstring \<Rightarrow> jsstring \<Rightarrow> bool" where
  "containsCI p v = searchWith (prefixCI p) v"

text \<open>Two names are the same up to letter case.\<close>

definition sameNameCI :: "jsstring \<Rightarrow> jsstring \<Rightarrow> bool" where
  "sameNameCI a b = (lower a = lower b)"

text \<open>
  The engine reads the pattern \<^verbatim>\<open>^n$\<close> with the flag \<^verbatim>\<open>i\<close> as the name \<open>n\<close>: among the
  names \<open>us\<close> it finds those that are \<open>n\<close> up to letter case, and no other.
\<close>

definition readsAsName :: "regex_engine \<Rightarrow> jsstring \<Rightarrow> jsstring list \<Rightarrow> bool" where
  "readsAsName rx n us =
     (case rx (js ''^'' @ n @ js ''$'') ''i'' of
        None \<Rightarrow> False
      | Some f \<Rightarrow> list_all (\<lambda>u. f u = sameNameCI n u) us)"

text \<open>
  The engine reads the pattern \<open>p\<close> with the flag \<^verbatim>\<open>i\<close> as plain text: among the strings
  \<open>vs\<close> it finds those that contain \<open>p\<close> up to letter case, and no other.
\<close>

definition readsAsText :: "regex_engine \<Rightarrow> jsstring \<Rightarrow> jsstring list \<Rightarrow> bool" where
  "readsAsText rx p vs =
     (case rx p ''i'' of
        None \<Rightarrow> False
      | Some f \<Rightarrow> list_all (\<lambda>v. f v = containsCI p v) vs)"

text \<open>A pattern of ASCII characters none of which a regular expression reads specially.\<close>

definition isLiteral :: "jsstring \<Rightarrow> bool" where
  "isLiteral p = list_all (\<lambda>c. c < 128 \<and> c \<notin> set metachars) p"

subsection \<open>Queries on the item collection\<close>

text \<open>
  The filter object \<^verbatim>\<open>{ university, status?, name: { $regex, $options: 'i' }? }\<close> that
  \<^verbatim>\<open>GET /items\<close> builds, and \<^verbatim>\<open>Item.find(query).sort({ createdAt: -1 })\<close>. Mongoose casts
  the filter with the schema before it sends it, and the cast runs the setters: the
  \<^verbatim>\<open>university\<close> asked for is trimmed (\<^verbatim>\<open>trim: true\<close>), \<^verbatim>\<open>status\<close> has no setter, and a
  \<^verbatim>\<open>$regex\<close> is passed on as it is. An ill-formed pattern makes the query fail.
\<close>

record item_query =
  q_university :: jsstring
  q_status :: "jsstring option"
  q_name :: "jsstring option"

definition buildQuery :: "jsstring \<Rightarrow> jsstring option \<Rightarrow> jsstring option \<Rightarrow> item_query" where
  "buildQuery uni st search =
     \<lparr>q_university = uni,
      q_status = (if truthy st then st else None),
      q_name = (if truthy search then search else None)\<rparr>"

definition newestFirst :: "item list \<Rightarrow> item list" where
  "newestFirst xs = rev (sort_key createdAt xs)"

definition findSorted :: "regex_engine \<Rightarrow> item list \<Rightarrow> item_query \<Rightarrow> db_error + item list" where
  "findSorted rx xs q =
     (case (case q_name q of None \<Rightarrow> Some (\<lambda>v. True) | Some p \<Rightarrow> rx p ''i'') of
        None \<Rightarrow> Inl RegexError
      | Some m \<Rightarrow>
          Inr (newestFirst
                 (filter (\<lambda>i. university i = trim (q_university q)
                              \<and> (case q_status q of None \<Rightarrow> True | Some w \<Rightarrow> status i = w)
                              \<and> m (name i)) xs)))"

subsection \<open>The handlers of part\_000\<close>

text \<open>\<^verbatim>\<open>POST /add-university\<close> (lines 113-129), behind \<^verbatim>\<open>isAuthenticated\<close> (lines 89-94).\<close>

definition postAddUniversity000 ::
  "regex_engine \<Rightarrow> app_state \<Rightarrow> jsstring option \<Rightarrow> response \<times> app_state" where
  "postAddUniversity000 rx s newUniversity =
     (case session s of
        None \<Rightarrow> (Redirect ''/login'', s)
      | Some su \<Rightarrow>
          (case rx (js ''^'' @ interpolate newUniversity @ js ''$'') ''i'' of
             None \<Rightarrow> (Redirect ''/'', s)
           | Some m \<Rightarrow>
               (let exists = find m (universities s) in
                if exists = None \<and> truthy newUniversity then
                  (case saveUniversity (universities s) (assigned newUniversity) of
                     Inl e \<Rightarrow> (Redirect ''/'', s)
                   | Inr us \<Rightarrow> (Redirect ''/'', s\<lparr>universities := us\<rparr>))
                else (Redirect ''/'', s))))"

text \<open>\<^verbatim>\<open>GET /items\<close> (lines 132-152).\<close>

definition getItems000 ::
  "regex_engine \<Rightarrow> app_state \<Rightarrow> jsstring option \<Rightarrow> jsstring option \<Rightarrow> jsstring option
     \<Rightarrow> response \<times> app_state" where
  "getItems000 rx s uni st search =
     (if session s = None then (Redirect ''/login?error=must_login'', s)
      else if \<not> truthy uni then (Redirect ''/'', s)
      else
        (case findSorted rx (items s) (buildQuery (assigned uni) st search) of
           Inl e \<Rightarrow> (Send 500 ''Error fetching items.'', s)
         | Inr found \<Rightarrow> (RenderItems found (assigned uni) st search, s)))"

text \<open>
  \<^verbatim>\<open>POST /items/:id/update\<close> (lines 245-291). \<open>rid\<close> is \<^verbatim>\<open>req.params.id\<close>, \<open>item_form\<close> is
  \<^verbatim>\<open>req.body\<close>, \<open>reqFile\<close> is \<^verbatim>\<open>req.file\<close> (the uploaded bytes) and \<open>upload\<close> is the image
  host, which answers with the \<^verbatim>\<open>secure_url\<close> or fails. Whatever is thrown inside the
  \<^verbatim>\<open>try\<close>, by the lookup, the upload or the save, ends in the one \<^verbatim>\<open>catch\<close>.
\<close>

record item_form =
  b_status :: "jsstring option"
  b_itemName :: "jsstring option"
  b_description :: "jsstring option"
  b_category :: "jsstring option"
  b_university :: "jsstring option"
  b_contactEmail :: "jsstring option"
  b_contactPhone :: "jsstring option"

definition assignForm :: "item \<Rightarrow> item_form \<Rightarrow> item" where
  "assignForm it b =
     it\<lparr>name := assignedTrim (b_itemName b),
        description := assignedTrim (b_description b),
        status := assigned (b_status b),
        category := assignedTrim (b_category b),
        university := assignedTrim (b_university b),
        contactEmail := assigned (b_contactEmail b),
        contactPhone := assigned (b_contactPhone b)\<rparr>"

definition uploadImage ::
  "(jsstring \<Rightarrow> jsstring option) \<Rightarrow> jsstring option \<Rightarrow> item \<Rightarrow> db_error + item" where
  "uploadImage upload reqFile it =
     (case reqFile of
        None \<Rightarrow> Inr it
      | Some bytes \<Rightarrow>
          (case upload bytes of
             None \<Rightarrow> Inl UploadError
           | Some url \<Rightarrow> Inr (it\<lparr>imageUrl := url\<rparr>)))"

definition postItemUpdate000 ::
  "(jsstring \<Rightarrow> oid option) \<Rightarrow> (jsstring \<Rightarrow> jsstring option) \<Rightarrow> nat \<Rightarrow> app_state \<Rightarrow> jsstring
     \<Rightarrow> item_form \<Rightarrow> jsstring option \<Rightarrow> response \<times> app_state" where
  "postItemUpdate000 cast upload now s rid b reqFile =
     (case session s of
        None \<Rightarrow> (Redirect ''/login'', s)
      | Some su \<Rightarrow>
          (case findById cast (items s) rid of
             Inl e \<Rightarrow> (Send 500 ''Error updating item'', s)
           | Inr None \<Rightarrow> (Send 404 ''Item not found'', s)
           | Inr (Some it) \<Rightarrow>
               if reportedBy it \<noteq> sess_id su then (Send 403 ''Unauthorized'', s)
               else
                 (case uploadImage upload reqFile (assignForm it b) of
                    Inl e \<Rightarrow> (Send 500 ''Error updating item'', s)
                  | Inr it' \<Rightarrow>
                      (case saveItem now (items s) it it' of
                         Inl e \<Rightarrow> (Send 500 ''Error updating item'', s)
                       | Inr xs \<Rightarrow> (Redirect ''/my-posts'', s\<lparr>items := xs\<rparr>)))))"

text \<open>\<^verbatim>\<open>POST /items/:id/delete\<close> (lines 294-309).\<close>

definition postItemDelete000 ::
  "(jsstring \<Rightarrow> oid option) \<Rightarrow> app_state \<Rightarrow> jsstring \<Rightarrow> response \<times> app_state" where
  "postItemDelete000 cast s rid =
     (case session s of
        None \<Rightarrow> (Redirect ''/login'', s)
      | Some su \<Rightarrow>
          (case findById cast (items s) rid of
             Inl e \<Rightarrow> (Send 500 ''Error deleting item.'', s)
           | Inr None \<Rightarrow> (Send 404 ''Not found.'', s)
           | Inr (Some it) \<Rightarrow>
               if reportedBy it \<noteq> sess_id su then (Send 403 ''Unauthorized.'', s)
               else
                 (case findByIdAndDelete cast (items s) rid of
                    Inl e \<Rightarrow> (Send 500 ''Error deleting item.'', s)
                  | Inr xs \<Rightarrow> (Redirect ''/my-posts'', s\<lparr>items := xs\<rparr>))))"

text \<open>\<^verbatim>\<open>POST /signup\<close> (lines 325-363). \<open>newId\<close> is the \<^verbatim>\<open>_id\<close> of the new document.\<close>

definition postSignup000 ::
  "oid \<Rightarrow> app_state \<Rightarrow> jsstring option \<Rightarrow> jsstring option \<Rightarrow> jsstring option
     \<Rightarrow> response \<times> app_state" where
  "postSignup000 newId s nm email password =
     (if \<not> truthy email \<or> \<not> truthy nm \<or> \<not> truthy password
      then (Send 200 ''Error: All fields are required.'', s)
      else
        (case findOneByEmail (users s) email of
           Some existingUser \<Rightarrow> (Redirect ''/login?error=email_exists'', s)
         | None \<Rightarrow>
             (let newUser = \<lparr>user_id = newId, user_name = assigned nm,
                             user_email = assigned email, user_password = assigned password\<rparr>
              in case saveUser (users s) newUser of
                   Inl e \<Rightarrow> (SendError 500 ''Error creating account: '' e, s)
                 | Inr us \<Rightarrow>
                     (Redirect ''/'',
                      s\<lparr>users := us,
                        session := Some \<lparr>sess_id = user_id newUser, sess_name = user_name newUser,
                                         sess_email = user_email newUser\<rparr>\<rparr>))))"

text \<open>\<^verbatim>\<open>POST /login\<close> (lines 380-400): \<^verbatim>\<open>user.password === password\<close>.\<close>

definition postLogin000 ::
  "app_state \<Rightarrow> jsstring option \<Rightarrow> jsstring option \<Rightarrow> response \<times> app_state" where
  "postLogin000 s email password =
     (case findOneByEmail (users s) email of
        Some u \<Rightarrow>
          if Some (user_password u) = password
          then (Redirect ''/'',
                s\<lparr>session := Some \<lparr>sess_id = user_id u, sess_name = user_name u,
                                     sess_email = user_email u\<rparr>\<rparr>)
          else (RenderLogin (Some ''Invalid email or password.''), s)
      | None \<Rightarrow> (RenderLogin (Some ''Invalid email or password.''), s))"

subsection \<open>The handlers of part\_001\<close>

text \<open>\<^verbatim>\<open>GET /items\<close> (lines 97-113): no login check.\<close>

definition getItems001 ::
  "regex_engine \<Rightarrow> app_state \<Rightarrow> jsstring option \<Rightarrow> jsstring option \<Rightarrow> jsstring option
     \<Rightarrow> response \<times> app_state" where
  "getItems001 rx s uni st search =
     (if \<not> truthy uni then (Redirect ''/'', s)
      else
        (case findSorted rx (items s) (buildQuery (assigned uni) st search) of
           Inl e \<Rightarrow> (Send 500 ''Error fetching items.'', s)
         | Inr found \<Rightarrow> (RenderItems found (assigned uni) st search, s)))"

text \<open>
  \<^verbatim>\<open>POST /signup\<close> (lines 211-225). \<open>bhash\<close> is \<^verbatim>\<open>bcrypt.hash(_, 10)\<close>, which rejects a
  value that is not a string.
\<close>

definition postSignup001 ::
  "(jsstring \<Rightarrow> jsstring) \<Rightarrow> oid \<Rightarrow> app_state \<Rightarrow> jsstring option \<Rightarrow> jsstring option
     \<Rightarrow> jsstring option \<Rightarrow> response \<times> app_state" where
  "postSignup001 bhash newId s nm email password =
     (case findOneByEmail (users s) email of
        Some existingUser \<Rightarrow> (Send 400 ''An account with this email already exists.'', s)
      | None \<Rightarrow>
          (case password of
             None \<Rightarrow> (Send 500 ''Error creating account.'', s)
           | Some pw \<Rightarrow>
               (case saveUser (users s)
                       \<lparr>user_id = newId, user_name = assigned nm, user_email = assigned email,
                        user_password = bhash pw\<rparr> of
                  Inl e \<Rightarrow> (Send 500 ''Error creating account.'', s)
                | Inr us \<Rightarrow> (Redirect ''/login'', s\<lparr>users := us\<rparr>))))"

text \<open>
  \<^verbatim>\<open>POST /login\<close> (lines 229-243). \<open>bcompare\<close> is \<^verbatim>\<open>bcrypt.compare\<close>, which rejects a value
  that is not a string; \<^verbatim>\<open>&&\<close> does not call it when no user was found.
\<close>

definition postLogin001 ::
  "(jsstring \<Rightarrow> jsstring \<Rightarrow> bool) \<Rightarrow> app_state \<Rightarrow> jsstring option \<Rightarrow> jsstring option
     \<Rightarrow> response \<times> app_state" where
  "postLogin001 bcompare s email password =
     (case findOneByEmail (users s) email of
        None \<Rightarrow> (Send 401 ''Invalid email or password.'', s)
      | Some u \<Rightarrow>
          (case password of
             None \<Rightarrow> (Send 500 ''Error logging in.'', s)
           | Some pw \<Rightarrow>
               if bcompare pw (user_password u)
               then (Redirect ''/'',
                     s\<lparr>session := Some \<lparr>sess_id = user_id u, sess_name = user_name u,
                                          sess_email = user_email u\<rparr>\<rparr>)
               else (Send 401 ''Invalid email or password.'', s)))"

subsection \<open>Sample data\<close>

text \<open>
  One user, one item that she reported, no university yet; the session is the argument.
  The concrete runs further down start from here. Their ids are strings of 24 hexadecimal
  digits, read by \<open>castObjectId\<close>.
\<close>

definition hexDigit :: "jschar \<Rightarrow> nat option" where
  "hexDigit c =
     (if 48 \<le> c \<and> c \<le> 57 then Some (c - 48)
      else if 97 \<le> c \<and> c \<le> 102 then Some (c - 87)
      else if 65 \<le> c \<and> c \<le> 70 then Some (c - 55)
      else None)"

fun hexValue :: "nat \<Rightarrow> jsstring \<Rightarrow> nat option" where
  "hexValue acc [] = Some acc"
| "hexValue acc (c # cs) =
     (case hexDigit c of None \<Rightarrow> None | Some d \<Rightarrow> hexValue (16 * acc + d) cs)"

definition castObjectId :: "jsstring \<Rightarrow> oid option" where
  "castObjectId v = (if length v = 24 then hexValue 0 v else None)"

definition ann :: user where
  "ann = \<lparr>user_id = 1, user_name = js ''Ann'', user_email = js ''ann@x.edu'',
          user_password = js ''pw1''\<rparr>"

definition annSession :: session_user where
  "annSession = \<lparr>sess_id = 1, sess_name = js ''Ann'', sess_email = js ''ann@x.edu''\<rparr>"

definition bobSession :: session_user where
  "bobSession = \<lparr>sess_id = 2, sess_name = js ''Bob'', sess_email = js ''bob@x.edu''\<rparr>"

definition blueBottle :: item where
  "blueBottle =
     \<lparr>item_id = 10, name = js ''Blue Bottle'', description = js ''Steel bottle'',
      status = js ''Lost'', category = js ''Accessories'', university = js ''MIT'',
      imageUrl = js ''https://img.example/1'', contactEmail = js ''ann@x.edu'',
      contactPhone = js ''555'', reportedBy = 1, createdAt = 100, updatedAt = 100\<rparr>"

definition campus :: "session_user option \<Rightarrow> app_state" where
  "campus who = \<lparr>users = [ann], items = [blueBottle], universities = [], session = who\<rparr>"

definition keysForm :: item_form where
  "keysForm =
     \<lparr>b_status = Some (js ''Found''), b_itemName = Some (js '' Keys ''),
      b_description = Some (js ''Two keys''), b_category = Some (js ''Keys''),
      b_university = Some (js ''MIT''), b_contactEmail = Some (js ''ann@x.edu''),
      b_contactPhone = Some (js ''555'')\<rparr>"

definition foundKeys :: item where
  "foundKeys =
     \<lparr>item_id = 10, name = js ''Keys'', description = js ''Two keys'', status = js ''Found'',
      category = js ''Keys'', university = js ''MIT'', imageUrl = js ''https://img.example/2'',
      contactEmail = js ''ann@x.edu'', contactPhone = js ''555'', reportedBy = 1,
      createdAt = 100, updatedAt = 200\<rparr>"

definition bob :: user where
  "bob = \<lparr>user_id = 2, user_name = js ''Bob'', user_email = js ''bob@x.edu'',
          user_password = js ''pw2''\<rparr>"

text \<open>
  A toy stand-in for bcrypt, for the runs of part_001: the hash is the password behind a
  fixed prefix, and a password verifies against its hash alone.
\<close>

definition toyHash :: "jsstring \<Rightarrow> jsstring" where
  "toyHash pw = js ''$2a$10$'' @ pw"

definition toyCompare :: "jsstring \<Rightarrow> jsstring \<Rightarrow> bool" where
  "toyCompare pw h = (h = toyHash pw)"

definition annHashed :: user where
  "annHashed = ann\<lparr>user_password := toyHash (js ''pw1'')\<rparr>"

definition campusHashed :: app_state where
  "campusHashed = \<lparr>users = [annHashed], items = [blueBottle], universities = [], session = None\<rparr>"

text \<open>A fuller item collection: three universities' worth of lost and found things.\<close>

definition sampleItem :: "oid \<Rightarrow> string \<Rightarrow> string \<Rightarrow> string \<Rightarrow> nat \<Rightarrow> item" where
  "sampleItem i nm st uni t =
     \<lparr>item_id = i, name = js nm, description = js ''As found'', status = js st,
      category = js ''Things'', university = js uni, imageUrl = js ''https://img.example/0'',
      contactEmail = js ''ann@x.edu'', contactPhone = js ''555'', reportedBy = 1,
      createdAt = t, updatedAt = t\<rparr>"

definition redPen :: item where
  "redPen = sampleItem 11 ''Red Pen'' ''Found'' ''MIT'' 200"

definition blueScarf :: item where
  "blueScarf = sampleItem 12 ''Navy blue scarf'' ''Lost'' ''MIT'' 300"

definition blueCap :: item where
  "blueCap = sampleItem 13 ''Blue Cap'' ''Lost'' ''SRM University'' 400"

definition greenBag :: item where
  "greenBag = sampleItem 14 ''Green Bag'' ''Lost'' ''MIT'' 250"

definition busyCampus :: app_state where
  "busyCampus =
     \<lparr>users = [ann], items = [blueBottle, redPen, blueScarf, blueCap, greenBag],
      universities = [js ''MIT'', js ''SRM University''], session = Some annSession\<rparr>"

section \<open>Properties\<close>

subsection \<open>Evaluating the concrete runs\<close>

lemma js_eq_iff [simp]: "js a = js b \<longleftrightarrow> a = b"
  by (simp add: js_def inj_map_eq_map inj_on_def)

lemma js_Nil_iff [simp]: "js a = [] \<longleftrightarrow> a = []"
  by (simp add: js_def)

lemmas sample_defs =
  ann_def annSession_def bob_def bobSession_def blueBottle_def campus_def keysForm_def
  foundKeys_def toyHash_def toyCompare_def annHashed_def campusHashed_def sampleItem_def
  redPen_def blueScarf_def blueCap_def greenBag_def busyCampus_def

lemmas string_defs =
  js_def trim_def isWhiteSpace_def toLower_def lower_def castObjectId_def hexDigit_def

lemmas regex_defs =
  rxLite_def metachars_def atomMatch_def containsCI_def sameNameCI_def Let_def

lemmas store_defs =
  findOneByEmail_def findById_def findByIdAndDelete_def saveUser_def validUser_def
  saveItem_def validItem_def saveUniversity_def findSorted_def buildQuery_def newestFirst_def
  assignForm_def assignedTrim_def uploadImage_def

subsection \<open>Lookups and saves\<close>

lemma findOneByEmail_None:
  "findOneByEmail us e = None \<longleftrightarrow> (\<forall>u \<in> set us. Some (user_email u) \<noteq> e)"
  by (auto simp: findOneByEmail_def find_None_iff)

lemma findOneByEmail_Some:
  "findOneByEmail us e = Some u \<Longrightarrow> u \<in> set us \<and> Some (user_email u) = e"
  by (auto simp: findOneByEmail_def find_Some_iff)

lemma findOneByEmail_unique:
  "distinct (map user_email us) \<Longrightarrow> u \<in> set us \<Longrightarrow> Some (user_email u) = e
     \<Longrightarrow> findOneByEmail us e = Some u"
proof (induction us)
  case Nil
  then show ?case by simp
next
  case (Cons x xs)
  show ?case
  proof (cases "u = x")
    case True
    with Cons.prems show ?thesis by (simp add: findOneByEmail_def)
  next
    case False
    with Cons.prems have in_xs: "u \<in> set xs" by simp
    with Cons.prems have "user_email x \<noteq> user_email u" by force
    with Cons.prems have "Some (user_email x) \<noteq> e" by auto
    moreover from Cons.IH Cons.prems in_xs have "findOneByEmail xs e = Some u" by simp
    ultimately show ?thesis by (simp add: findOneByEmail_def)
  qed
qed

lemma saveUser_distinct:
  "distinct (map user_email us) \<Longrightarrow> saveUser us u = Inr us' \<Longrightarrow> distinct (map user_email us')"
  by (auto simp: saveUser_def split: if_splits)

lemma find_replaceById:
  "find (\<lambda>x. item_id x = i) xs = Some old \<Longrightarrow> item_id new = i
     \<Longrightarrow> find (\<lambda>x. item_id x = i) (replaceById i new xs) = Some new"
  by (induction xs) (auto split: if_splits)

lemma mset_newestFirst: "mset (newestFirst xs) = mset xs"
  by (simp add: newestFirst_def)

lemma sorted_newestFirst: "sorted_wrt (\<lambda>a b. createdAt b \<le> createdAt a) (newestFirst xs)"
proof -
  have "sorted (map createdAt (sort_key createdAt xs))" by (rule sorted_sort_key)
  then have "sorted_wrt (\<lambda>a b. createdAt a \<le> createdAt b) (sort_key createdAt xs)"
    by (simp add: sorted_map)
  then show ?thesis by (simp add: newestFirst_def sorted_wrt_rev)
qed

lemma uploadImage_frame:
  assumes "uploadImage upload reqFile it = Inr it'"
  shows "item_id it' = item_id it" "name it' = name it" "description it' = description it"
    "status it' = status it" "category it' = category it" "university it' = university it"
    "contactEmail it' = contactEmail it" "contactPhone it' = contactPhone it"
    "reportedBy it' = reportedBy it" "createdAt it' = createdAt it"
    "updatedAt it' = updatedAt it"
    "case reqFile of None \<Rightarrow> imageUrl it' = imageUrl it | Some bytes \<Rightarrow> upload bytes = Some (imageUrl it')"
  using assms by (auto simp: uploadImage_def split: option.splits)

lemma postSignup000_distinct:
  assumes "distinct (map user_email (users s))"
  shows "distinct (map user_email (users (snd (postSignup000 newId s nm email password))))"
  using assms
  by (auto simp: postSignup000_def Let_def split: option.splits sum.splits
           dest: saveUser_distinct)

lemma postSignup001_distinct:
  assumes "distinct (map user_email (users s))"
  shows "distinct (map user_email (users (snd (postSignup001 bhash newId s nm email password))))"
  using assms
  by (auto simp: postSignup001_def split: option.splits sum.splits dest: saveUser_distinct)

subsection \<open>Signing up\<close>

text \<open>
  Claim C10. A signup in which the name, the email or the password is missing or empty is
  answered with the text "Error: All fields are required." before the user collection is
  read: the state that comes back is the state that went in, so no user is stored and no
  session is set.
\<close>

theorem signup_missing_field_rejected:
  assumes "\<not> truthy nm \<or> \<not> truthy email \<or> \<not> truthy password"
  shows "postSignup000 newId s nm email password = (Send 200 ''Error: All fields are required.'', s)"
  using assms by (auto simp: postSignup000_def)

theorem signup_missing_field_rejected_witness:
  "\<not> truthy (Some [])
   \<and> postSignup000 5 (campus None) (Some (js ''Bob'')) (Some (js ''bob@x.edu'')) (Some [])
       = (Send 200 ''Error: All fields are required.'', campus None)"
  using signup_missing_field_rejected
          [where nm = "Some (js ''Bob'')" and email = "Some (js ''bob@x.edu'')"
             and password = "Some []" and newId = 5 and s = "campus None"]
  by simp

text \<open>
  Claim C1, as the code has it. For a signup with a fresh email and a non-empty name, email
  and password, the server of part_000 stores the submitted password itself: the password
  field of the new user document equals the submitted password, and the session is set to
  the new user. Only the server of part_001 stores a hash: there the password field is what
  bcrypt returned for the submitted password.
\<close>

theorem signup_stores_password:
  assumes "truthy nm" and "truthy email" and "truthy password"
    and "findOneByEmail (users s) email = None"
  shows "postSignup000 newId s nm email password =
           (Redirect ''/'',
            s\<lparr>users := users s @ [\<lparr>user_id = newId, user_name = assigned nm,
                                   user_email = assigned email, user_password = assigned password\<rparr>],
              session := Some \<lparr>sess_id = newId, sess_name = assigned nm, sess_email = assigned email\<rparr>\<rparr>)
       \<and> (bhash (assigned password) \<noteq> [] \<longrightarrow>
            postSignup001 bhash newId s nm email password =
              (Redirect ''/login'',
               s\<lparr>users := users s @ [\<lparr>user_id = newId, user_name = assigned nm,
                                      user_email = assigned email,
                                      user_password = bhash (assigned password)\<rparr>]\<rparr>))"
proof -
  obtain n e p where v: "nm = Some n" "email = Some e" "password = Some p" "n \<noteq> []" "e \<noteq> []" "p \<noteq> []"
    using assms(1-3) by (cases nm; cases email; cases password) auto
  from assms(4) v have fresh: "e \<notin> user_email ` set (users s)"
    by (auto simp: findOneByEmail_None)
  from v fresh assms(4) show ?thesis
    by (simp add: postSignup000_def postSignup001_def saveUser_def validUser_def Let_def)
qed

theorem signup_stores_password_witness:
  "truthy (Some (js ''Bob'')) \<and> truthy (Some (js ''bob@x.edu'')) \<and> truthy (Some (js ''pw2''))
   \<and> findOneByEmail (users (campus None)) (Some (js ''bob@x.edu'')) = None
   \<and> postSignup000 2 (campus None) (Some (js ''Bob'')) (Some (js ''bob@x.edu'')) (Some (js ''pw2''))
       = (Redirect ''/'', (campus (Some bobSession))\<lparr>users := [ann, bob]\<rparr>)
   \<and> toyHash (js ''pw2'') \<noteq> []
   \<and> postSignup001 toyHash 2 (campus None) (Some (js ''Bob'')) (Some (js ''bob@x.edu''))
         (Some (js ''pw2''))
       = (Redirect ''/login'',
          (campus None)\<lparr>users := [ann, bob\<lparr>user_password := js ''$2a$10$pw2''\<rparr>]\<rparr>)"
proof -
  have t: "truthy (Some (js ''Bob''))" "truthy (Some (js ''bob@x.edu''))"
      "truthy (Some (js ''pw2''))"
    by simp_all
  have f: "findOneByEmail (users (campus None)) (Some (js ''bob@x.edu'')) = None"
    by (simp add: findOneByEmail_def campus_def ann_def)
  have h: "toyHash (js ''pw2'') \<noteq> []"
    by (simp add: toyHash_def)
  have h': "toyHash (js ''pw2'') = js ''$2a$10$pw2''"
    by (simp add: toyHash_def js_def)
  from signup_stores_password [OF t f, where newId = 2 and bhash = toyHash] t f h h'
  show ?thesis by (simp add: campus_def bob_def bobSession_def)
qed

text \<open>
  The claim as it was stated, that the stored password differs from the submitted one in
  the database-backed server, fails: Bob signs up with \<^verbatim>\<open>pw2\<close> and \<^verbatim>\<open>pw2\<close> is stored.
\<close>

theorem signup_stores_password_counterexample:
  "findOneByEmail (users (campus None)) (Some (js ''bob@x.edu'')) = None
   \<and> map user_password
         (users (snd (postSignup000 2 (campus None) (Some (js ''Bob'')) (Some (js ''bob@x.edu''))
                        (Some (js ''pw2'')))))
       = [js ''pw1'', js ''pw2'']"
  by (simp add: postSignup000_def findOneByEmail_def saveUser_def validUser_def campus_def ann_def)

text \<open>
  Claim C3, as the code has it. A signup with the email of an existing user never changes
  the state: no user is added and the existing document is as it was. The server of
  part_001 always answers that the account exists. The server of part_000 answers so
  (a redirect to the login page with \<^verbatim>\<open>error=email_exists\<close>) when the name, the email
  and the password are all non-empty.
\<close>

theorem duplicate_email_signup_rejected:
  assumes "existing \<in> set (users s)" and "Some (user_email existing) = email"
  shows "postSignup001 bhash newId s nm email password =
           (Send 400 ''An account with this email already exists.'', s)
       \<and> snd (postSignup000 newId s nm email password) = s
       \<and> (truthy nm \<and> truthy email \<and> truthy password \<longrightarrow>
            postSignup000 newId s nm email password = (Redirect ''/login?error=email_exists'', s))"
proof -
  from assms have "findOneByEmail (users s) email \<noteq> None"
    by (auto simp: findOneByEmail_None)
  then obtain u where "findOneByEmail (users s) email = Some u" by auto
  then show ?thesis by (simp add: postSignup000_def postSignup001_def)
qed

theorem duplicate_email_signup_rejected_witness:
  "ann \<in> set (users (campus None)) \<and> Some (user_email ann) = Some (js ''ann@x.edu'')
   \<and> truthy (Some (js ''Ann B'')) \<and> truthy (Some (js ''ann@x.edu'')) \<and> truthy (Some (js ''other''))
   \<and> postSignup001 toyHash 2 (campus None) (Some (js ''Ann B'')) (Some (js ''ann@x.edu''))
         (Some (js ''other''))
       = (Send 400 ''An account with this email already exists.'', campus None)
   \<and> postSignup000 2 (campus None) (Some (js ''Ann B'')) (Some (js ''ann@x.edu''))
         (Some (js ''other''))
       = (Redirect ''/login?error=email_exists'', campus None)"
proof -
  have a: "ann \<in> set (users (campus None))" by (simp add: campus_def)
  have e: "Some (user_email ann) = Some (js ''ann@x.edu'')" by (simp add: ann_def)
  from duplicate_email_signup_rejected
         [OF a e, where bhash = toyHash and newId = 2 and nm = "Some (js ''Ann B'')"
            and password = "Some (js ''other'')"] a e
  show ?thesis by simp
qed

text \<open>
  The claim as it was stated, that every signup with an existing email gets the duplicate
  answer, fails in part_000: with an empty password the answer is the validation message.
\<close>

theorem duplicate_email_signup_counterexample:
  "ann \<in> set (users (campus None)) \<and> user_email ann = js ''ann@x.edu''
   \<and> postSignup000 2 (campus None) (Some (js ''Ann B'')) (Some (js ''ann@x.edu'')) (Some [])
       = (Send 200 ''Error: All fields are required.'', campus None)
   \<and> fst (postSignup000 2 (campus None) (Some (js ''Ann B'')) (Some (js ''ann@x.edu'')) (Some []))
       \<noteq> Redirect ''/login?error=email_exists''"
  by (simp add: postSignup000_def campus_def ann_def)

subsection \<open>Logging in\<close>

text \<open>
  Claim C6, as the code has it. With the unique index on the email in force, a login that
  carries a password succeeds exactly when some user document has the submitted email and
  the submitted password verifies against what is stored: equality with the stored
  password in part_000, \<^verbatim>\<open>bcrypt.compare\<close> in part_001. Then the session becomes that
  user's id, name and email and the answer is a redirect to the home page. Otherwise the
  state, the session included, is untouched, and the answer is the login form with
  "Invalid email or password." in part_000 and the status 401 with that text in part_001.
  A login without a password field fails in the same way in part_000 (the second
  statement covers it); in part_001 it gets the 401 when no user has the email, and the
  status 500 with "Error logging in." when one has, because \<^verbatim>\<open>bcrypt.compare\<close> rejects the
  missing password.
\<close>

theorem login_succeeds_iff_credentials_match:
  assumes "distinct (map user_email (users s))"
  shows "(\<forall>u \<in> set (users s). Some (user_email u) = email \<and> Some (user_password u) = password \<longrightarrow>
            postLogin000 s email password =
              (Redirect ''/'', s\<lparr>session := Some \<lparr>sess_id = user_id u, sess_name = user_name u,
                                                 sess_email = user_email u\<rparr>\<rparr>))
       \<and> ((\<forall>u \<in> set (users s). \<not> (Some (user_email u) = email \<and> Some (user_password u) = password)) \<longrightarrow>
            postLogin000 s email password = (RenderLogin (Some ''Invalid email or password.''), s))
       \<and> (\<forall>u \<in> set (users s). Some (user_email u) = email \<and> bcompare pw (user_password u) \<longrightarrow>
            postLogin001 bcompare s email (Some pw) =
              (Redirect ''/'', s\<lparr>session := Some \<lparr>sess_id = user_id u, sess_name = user_name u,
                                                 sess_email = user_email u\<rparr>\<rparr>))
       \<and> ((\<forall>u \<in> set (users s). \<not> (Some (user_email u) = email \<and> bcompare pw (user_password u))) \<longrightarrow>
            postLogin001 bcompare s email (Some pw) = (Send 401 ''Invalid email or password.'', s))
       \<and> ((\<forall>u \<in> set (users s). Some (user_email u) \<noteq> email) \<longrightarrow>
            postLogin001 bcompare s email None = (Send 401 ''Invalid email or password.'', s))
       \<and> ((\<exists>u \<in> set (users s). Some (user_email u) = email) \<longrightarrow>
            postLogin001 bcompare s email None = (Send 500 ''Error logging in.'', s))"
proof (intro conjI ballI impI)
  fix u
  assume u: "u \<in> set (users s)"
    and ok: "Some (user_email u) = email \<and> Some (user_password u) = password"
  from assms u ok have "findOneByEmail (users s) email = Some u"
    by (simp add: findOneByEmail_unique)
  with ok show "postLogin000 s email password =
      (Redirect ''/'', s\<lparr>session := Some \<lparr>sess_id = user_id u, sess_name = user_name u,
                                         sess_email = user_email u\<rparr>\<rparr>)"
    by (simp add: postLogin000_def)
next
  assume no: "\<forall>u \<in> set (users s). \<not> (Some (user_email u) = email \<and> Some (user_password u) = password)"
  show "postLogin000 s email password = (RenderLogin (Some ''Invalid email or password.''), s)"
  proof (cases "findOneByEmail (users s) email")
    case None
    then show ?thesis by (simp add: postLogin000_def)
  next
    case (Some u)
    from findOneByEmail_Some [OF Some] no have "Some (user_password u) \<noteq> password" by blast
    with Some show ?thesis by (simp add: postLogin000_def)
  qed
next
  fix u
  assume u: "u \<in> set (users s)"
    and ok: "Some (user_email u) = email \<and> bcompare pw (user_password u)"
  from assms u ok have "findOneByEmail (users s) email = Some u"
    by (simp add: findOneByEmail_unique)
  with ok show "postLogin001 bcompare s email (Some pw) =
      (Redirect ''/'', s\<lparr>session := Some \<lparr>sess_id = user_id u, sess_name = user_name u,
                                         sess_email = user_email u\<rparr>\<rparr>)"
    by (simp add: postLogin001_def)
next
  assume no: "\<forall>u \<in> set (users s). \<not> (Some (user_email u) = email \<and> bcompare pw (user_password u))"
  show "postLogin001 bcompare s email (Some pw) = (Send 401 ''Invalid email or password.'', s)"
  proof (cases "findOneByEmail (users s) email")
    case None
    then show ?thesis by (simp add: postLogin001_def)
  next
    case (Some u)
    from findOneByEmail_Some [OF Some] no have "\<not> bcompare pw (user_password u)" by blast
    with Some show ?thesis by (simp add: postLogin001_def)
  qed
next
  assume "\<forall>u \<in> set (users s). Some (user_email u) \<noteq> email"
  then have "findOneByEmail (users s) email = None"
    by (simp add: findOneByEmail_None)
  then show "postLogin001 bcompare s email None = (Send 401 ''Invalid email or password.'', s)"
    by (simp add: postLogin001_def)
next
  assume "\<exists>u \<in> set (users s). Some (user_email u) = email"
  then have "findOneByEmail (users s) email \<noteq> None"
    by (auto simp: findOneByEmail_None)
  then obtain u where "findOneByEmail (users s) email = Some u" by auto
  then show "postLogin001 bcompare s email None = (Send 500 ''Error logging in.'', s)"
    by (simp add: postLogin001_def)
qed

theorem login_succeeds_iff_credentials_match_witness:
  "distinct (map user_email (users (campus None)))
   \<and> ann \<in> set (users (campus None))
   \<and> user_email ann = js ''ann@x.edu'' \<and> user_password ann = js ''pw1''
   \<and> postLogin000 (campus None) (Some (js ''ann@x.edu'')) (Some (js ''pw1''))
       = (Redirect ''/'', campus (Some annSession))
   \<and> \<not> (\<exists>u \<in> set (users (campus None)).
           Some (user_email u) = Some (js ''ann@x.edu'')
           \<and> Some (user_password u) = Some (js ''wrong''))
   \<and> postLogin000 (campus None) (Some (js ''ann@x.edu'')) (Some (js ''wrong''))
       = (RenderLogin (Some ''Invalid email or password.''), campus None)
   \<and> distinct (map user_email (users campusHashed))
   \<and> annHashed \<in> set (users campusHashed)
   \<and> user_email annHashed = js ''ann@x.edu'' \<and> toyCompare (js ''pw1'') (user_password annHashed)
   \<and> postLogin001 toyCompare campusHashed (Some (js ''ann@x.edu'')) (Some (js ''pw1''))
       = (Redirect ''/'', campusHashed\<lparr>session := Some annSession\<rparr>)
   \<and> \<not> toyCompare (js ''wrong'') (user_password annHashed)
   \<and> postLogin001 toyCompare campusHashed (Some (js ''ann@x.edu'')) (Some (js ''wrong''))
       = (Send 401 ''Invalid email or password.'', campusHashed)
   \<and> postLogin001 toyCompare campusHashed (Some (js ''eve@x.edu'')) None
       = (Send 401 ''Invalid email or password.'', campusHashed)
   \<and> postLogin001 toyCompare campusHashed (Some (js ''ann@x.edu'')) None
       = (Send 500 ''Error logging in.'', campusHashed)"
proof -
  have d: "distinct (map user_email (users (campus None)))"
    by (simp add: campus_def)
  have a: "ann \<in> set (users (campus None))"
    by (simp add: campus_def)
  have ok: "Some (user_email ann) = Some (js ''ann@x.edu'')
            \<and> Some (user_password ann) = Some (js ''pw1'')"
    by (simp add: ann_def)
  have bad: "\<forall>u \<in> set (users (campus None)).
         \<not> (Some (user_email u) = Some (js ''ann@x.edu'')
            \<and> Some (user_password u) = Some (js ''wrong''))"
    by (simp add: campus_def ann_def)
  have same: "(campus None)\<lparr>session := Some \<lparr>sess_id = user_id ann, sess_name = user_name ann,
                 sess_email = user_email ann\<rparr>\<rparr> = campus (Some annSession)"
    by (simp add: campus_def ann_def annSession_def)
  note plain = login_succeeds_iff_credentials_match [OF d]
  from plain [where email = "Some (js ''ann@x.edu'')" and password = "Some (js ''pw1'')"] a ok same
  have one: "postLogin000 (campus None) (Some (js ''ann@x.edu'')) (Some (js ''pw1''))
       = (Redirect ''/'', campus (Some annSession))"
    by auto
  from plain [where email = "Some (js ''ann@x.edu'')" and password = "Some (js ''wrong'')"] bad
  have two: "postLogin000 (campus None) (Some (js ''ann@x.edu'')) (Some (js ''wrong''))
       = (RenderLogin (Some ''Invalid email or password.''), campus None)"
    by blast
  have dh: "distinct (map user_email (users campusHashed))"
    by (simp add: campusHashed_def)
  have ah: "annHashed \<in> set (users campusHashed)"
    by (simp add: campusHashed_def)
  have eh: "user_email annHashed = js ''ann@x.edu''"
    by (simp add: annHashed_def ann_def)
  have okh: "toyCompare (js ''pw1'') (user_password annHashed)"
    by (simp add: annHashed_def toyCompare_def)
  have badh: "\<not> toyCompare (js ''wrong'') (user_password annHashed)"
    by (simp add: annHashed_def toyCompare_def toyHash_def)
  have sameh: "campusHashed\<lparr>session := Some \<lparr>sess_id = user_id annHashed,
                 sess_name = user_name annHashed, sess_email = user_email annHashed\<rparr>\<rparr>
               = campusHashed\<lparr>session := Some annSession\<rparr>"
    by (simp add: annHashed_def ann_def annSession_def)
  have only: "\<forall>u \<in> set (users campusHashed). u = annHashed"
    by (simp add: campusHashed_def)
  have unknown: "\<forall>u \<in> set (users campusHashed). Some (user_email u) \<noteq> Some (js ''eve@x.edu'')"
    by (simp add: campusHashed_def annHashed_def ann_def)
  have known: "\<exists>u \<in> set (users campusHashed). Some (user_email u) = Some (js ''ann@x.edu'')"
    using ah eh by auto
  note hashed = login_succeeds_iff_credentials_match [OF dh, where bcompare = toyCompare]
  from hashed [where email = "Some (js ''ann@x.edu'')" and pw = "js ''pw1''"] ah eh okh sameh
  have three: "postLogin001 toyCompare campusHashed (Some (js ''ann@x.edu'')) (Some (js ''pw1''))
       = (Redirect ''/'', campusHashed\<lparr>session := Some annSession\<rparr>)"
    by auto
  have badallh: "\<forall>u \<in> set (users campusHashed).
         \<not> (Some (user_email u) = Some (js ''ann@x.edu'')
            \<and> toyCompare (js ''wrong'') (user_password u))"
    by (simp add: campusHashed_def annHashed_def ann_def toyCompare_def toyHash_def)
  from hashed [where email = "Some (js ''ann@x.edu'')" and pw = "js ''wrong''"] badallh
  have four: "postLogin001 toyCompare campusHashed (Some (js ''ann@x.edu'')) (Some (js ''wrong''))
       = (Send 401 ''Invalid email or password.'', campusHashed)"
    by blast
  from hashed [where email = "Some (js ''eve@x.edu'')"] unknown
  have five: "postLogin001 toyCompare campusHashed (Some (js ''eve@x.edu'')) None
       = (Send 401 ''Invalid email or password.'', campusHashed)"
    by blast
  from hashed [where email = "Some (js ''ann@x.edu'')"] known
  have six: "postLogin001 toyCompare campusHashed (Some (js ''ann@x.edu'')) None
       = (Send 500 ''Error logging in.'', campusHashed)"
    by blast
  from ok have ok': "user_email ann = js ''ann@x.edu'' \<and> user_password ann = js ''pw1''"
    by simp
  from bad have bad': "\<not> (\<exists>u \<in> set (users (campus None)).
           Some (user_email u) = Some (js ''ann@x.edu'')
           \<and> Some (user_password u) = Some (js ''wrong''))"
    by blast
  show ?thesis
    using d a ok' one bad' two dh ah eh okh three badh four five six by blast
qed

text \<open>
  The claim as it was stated, that every login that does not succeed signals the failed
  authentication, fails in part_001: Ann's email without a password field is answered with
  the status 500.
\<close>

theorem login_succeeds_iff_credentials_match_counterexample:
  "findOneByEmail (users campusHashed) (Some (js ''ann@x.edu'')) = Some annHashed
   \<and> postLogin001 toyCompare campusHashed (Some (js ''ann@x.edu'')) None
       = (Send 500 ''Error logging in.'', campusHashed)
   \<and> fst (postLogin001 toyCompare campusHashed (Some (js ''ann@x.edu'')) None)
       \<noteq> Send 401 ''Invalid email or password.''"
  by (simp add: postLogin001_def findOneByEmail_def campusHashed_def annHashed_def ann_def)

text \<open>
  Claim C9, as the code has it. Take a login with an email that no user has and a login
  with the email of a user. In part_000 the two get the same answer, the login form with
  "Invalid email or password.", whenever the second does not carry the stored password,
  a missing password field included. In part_001 the two get the same answer, the status
  401 with that text, whenever the second carries a password that \<^verbatim>\<open>bcrypt.compare\<close>
  refuses. None of them changes the state. A login of part_001 with the email of a user
  and no password field is answered with the status 500 and "Error logging in.".
\<close>

theorem failed_logins_same_response:
  assumes "findOneByEmail (users s) e1 = None"
    and "findOneByEmail (users s) e2 = Some u"
  shows "(Some (user_password u) \<noteq> p2 \<longrightarrow>
            postLogin000 s e1 p1 = (RenderLogin (Some ''Invalid email or password.''), s)
          \<and> postLogin000 s e2 p2 = (RenderLogin (Some ''Invalid email or password.''), s)
          \<and> fst (postLogin000 s e1 p1) = fst (postLogin000 s e2 p2))
       \<and> (\<not> bcompare pw2 (user_password u) \<longrightarrow>
            postLogin001 bcompare s e1 p1 = (Send 401 ''Invalid email or password.'', s)
          \<and> postLogin001 bcompare s e2 (Some pw2) = (Send 401 ''Invalid email or password.'', s)
          \<and> fst (postLogin001 bcompare s e1 p1) = fst (postLogin001 bcompare s e2 (Some pw2)))
       \<and> postLogin001 bcompare s e2 None = (Send 500 ''Error logging in.'', s)"
  using assms by (simp add: postLogin000_def postLogin001_def)

theorem failed_logins_same_response_witness:
  "findOneByEmail (users (campus None)) (Some (js ''eve@x.edu'')) = None
   \<and> findOneByEmail (users (campus None)) (Some (js ''ann@x.edu'')) = Some ann
   \<and> Some (user_password ann) \<noteq> Some (js ''wrong'')
   \<and> fst (postLogin000 (campus None) (Some (js ''eve@x.edu'')) (Some (js ''pw1'')))
       = fst (postLogin000 (campus None) (Some (js ''ann@x.edu'')) (Some (js ''wrong'')))
   \<and> findOneByEmail (users campusHashed) (Some (js ''eve@x.edu'')) = None
   \<and> findOneByEmail (users campusHashed) (Some (js ''ann@x.edu'')) = Some annHashed
   \<and> \<not> toyCompare (js ''wrong'') (user_password annHashed)
   \<and> postLogin001 toyCompare campusHashed (Some (js ''eve@x.edu'')) (Some (js ''pw1''))
       = (Send 401 ''Invalid email or password.'', campusHashed)
   \<and> postLogin001 toyCompare campusHashed (Some (js ''ann@x.edu'')) (Some (js ''wrong''))
       = (Send 401 ''Invalid email or password.'', campusHashed)"
proof -
  have n: "findOneByEmail (users (campus None)) (Some (js ''eve@x.edu'')) = None"
    by (simp add: campus_def findOneByEmail_def ann_def)
  have r: "findOneByEmail (users (campus None)) (Some (js ''ann@x.edu'')) = Some ann"
    by (simp add: campus_def findOneByEmail_def ann_def)
  have w: "Some (user_password ann) \<noteq> Some (js ''wrong'')"
    by (simp add: ann_def)
  have nh: "findOneByEmail (users campusHashed) (Some (js ''eve@x.edu'')) = None"
    by (simp add: campusHashed_def findOneByEmail_def annHashed_def ann_def)
  have rh: "findOneByEmail (users campusHashed) (Some (js ''ann@x.edu'')) = Some annHashed"
    by (simp add: campusHashed_def findOneByEmail_def annHashed_def ann_def)
  have wh: "\<not> toyCompare (js ''wrong'') (user_password annHashed)"
    by (simp add: annHashed_def toyCompare_def toyHash_def)
  from failed_logins_same_response
         [OF n r, where ?p1.0 = "Some (js ''pw1'')" and ?p2.0 = "Some (js ''wrong'')"] w
  have plain: "fst (postLogin000 (campus None) (Some (js ''eve@x.edu'')) (Some (js ''pw1'')))
       = fst (postLogin000 (campus None) (Some (js ''ann@x.edu'')) (Some (js ''wrong'')))"
    by blast
  from failed_logins_same_response
         [OF nh rh, where ?p1.0 = "Some (js ''pw1'')" and bcompare = toyCompare
            and ?pw2.0 = "js ''wrong''"] wh
  have hashed: "postLogin001 toyCompare campusHashed (Some (js ''eve@x.edu'')) (Some (js ''pw1''))
       = (Send 401 ''Invalid email or password.'', campusHashed)
     \<and> postLogin001 toyCompare campusHashed (Some (js ''ann@x.edu'')) (Some (js ''wrong''))
       = (Send 401 ''Invalid email or password.'', campusHashed)"
    by blast
  from n r w plain nh rh wh hashed show ?thesis by blast
qed

text \<open>
  The claim as it was stated fails in part_001 when the password field is missing: the
  unknown email gets the status 401 and Ann's email the status 500.
\<close>

theorem failed_logins_same_response_counterexample:
  "findOneByEmail (users campusHashed) (Some (js ''eve@x.edu'')) = None
   \<and> findOneByEmail (users campusHashed) (Some (js ''ann@x.edu'')) = Some annHashed
   \<and> fst (postLogin001 toyCompare campusHashed (Some (js ''eve@x.edu'')) None)
       = Send 401 ''Invalid email or password.''
   \<and> fst (postLogin001 toyCompare campusHashed (Some (js ''ann@x.edu'')) None)
       = Send 500 ''Error logging in.''"
  by (simp add: postLogin001_def findOneByEmail_def campusHashed_def annHashed_def ann_def)

subsection \<open>Editing and deleting an item\<close>

text \<open>
  Claim C2, as the code has it. For a logged-in requester the lookup of the \<^verbatim>\<open>:id\<close> has
  three outcomes. When it finds an item that somebody else reported, update and delete
  both answer 403. When the id is an ObjectId that no stored item has, both answer 404.
  When the id is no ObjectId at all, the lookup throws and both answer 500. In all three
  cases the state comes back as it was.
\<close>

theorem non_owner_or_missing_item_rejected:
  assumes "session s = Some su"
  shows "(findById cast (items s) rid = Inr (Some it) \<and> reportedBy it \<noteq> sess_id su \<longrightarrow>
            postItemUpdate000 cast upload now s rid b reqFile = (Send 403 ''Unauthorized'', s)
          \<and> postItemDelete000 cast s rid = (Send 403 ''Unauthorized.'', s))
       \<and> (findById cast (items s) rid = Inr None \<longrightarrow>
            postItemUpdate000 cast upload now s rid b reqFile = (Send 404 ''Item not found'', s)
          \<and> postItemDelete000 cast s rid = (Send 404 ''Not found.'', s))
       \<and> (cast rid = None \<longrightarrow>
            postItemUpdate000 cast upload now s rid b reqFile = (Send 500 ''Error updating item'', s)
          \<and> postItemDelete000 cast s rid = (Send 500 ''Error deleting item.'', s))"
  using assms by (simp add: postItemUpdate000_def postItemDelete000_def findById_def)

theorem non_owner_or_missing_item_rejected_witness:
  "session (campus (Some bobSession)) = Some bobSession
   \<and> findById castObjectId (items (campus (Some bobSession))) (js ''00000000000000000000000a'')
       = Inr (Some blueBottle)
   \<and> reportedBy blueBottle \<noteq> sess_id bobSession
   \<and> postItemUpdate000 castObjectId (\<lambda>f. None) 200 (campus (Some bobSession))
         (js ''00000000000000000000000a'') keysForm None
       = (Send 403 ''Unauthorized'', campus (Some bobSession))
   \<and> postItemDelete000 castObjectId (campus (Some bobSession)) (js ''00000000000000000000000a'')
       = (Send 403 ''Unauthorized.'', campus (Some bobSession))
   \<and> findById castObjectId (items (campus (Some bobSession))) (js ''0000000000000000000000ff'')
       = Inr None
   \<and> postItemUpdate000 castObjectId (\<lambda>f. None) 200 (campus (Some bobSession))
         (js ''0000000000000000000000ff'') keysForm None
       = (Send 404 ''Item not found'', campus (Some bobSession))
   \<and> postItemDelete000 castObjectId (campus (Some bobSession)) (js ''0000000000000000000000ff'')
       = (Send 404 ''Not found.'', campus (Some bobSession))
   \<and> castObjectId (js ''abc'') = None
   \<and> postItemUpdate000 castObjectId (\<lambda>f. None) 200 (campus (Some bobSession)) (js ''abc'')
         keysForm None
       = (Send 500 ''Error updating item'', campus (Some bobSession))
   \<and> postItemDelete000 castObjectId (campus (Some bobSession)) (js ''abc'')
       = (Send 500 ''Error deleting item.'', campus (Some bobSession))"
proof -
  have sess: "session (campus (Some bobSession)) = Some bobSession"
    by (simp add: campus_def)
  have there: "findById castObjectId (items (campus (Some bobSession)))
                 (js ''00000000000000000000000a'') = Inr (Some blueBottle)"
    by (simp add: findById_def campus_def blueBottle_def string_defs)
  have other: "reportedBy blueBottle \<noteq> sess_id bobSession"
    by (simp add: blueBottle_def bobSession_def)
  have absent: "findById castObjectId (items (campus (Some bobSession)))
                  (js ''0000000000000000000000ff'') = Inr None"
    by (simp add: findById_def campus_def blueBottle_def string_defs)
  have broken: "castObjectId (js ''abc'') = None"
    by (simp add: string_defs)
  note rule = non_owner_or_missing_item_rejected
                [OF sess, where cast = castObjectId and upload = "\<lambda>f. None" and now = 200
                   and b = keysForm and reqFile = None]
  from rule [where rid = "js ''00000000000000000000000a''" and it = blueBottle] there other
  have forbidden:
    "postItemUpdate000 castObjectId (\<lambda>f. None) 200 (campus (Some bobSession))
         (js ''00000000000000000000000a'') keysForm None
       = (Send 403 ''Unauthorized'', campus (Some bobSession))
     \<and> postItemDelete000 castObjectId (campus (Some bobSession)) (js ''00000000000000000000000a'')
       = (Send 403 ''Unauthorized.'', campus (Some bobSession))"
    by blast
  from rule [where rid = "js ''0000000000000000000000ff''" and it = blueBottle] absent
  have notfound:
    "postItemUpdate000 castObjectId (\<lambda>f. None) 200 (campus (Some bobSession))
         (js ''0000000000000000000000ff'') keysForm None
       = (Send 404 ''Item not found'', campus (Some bobSession))
     \<and> postItemDelete000 castObjectId (campus (Some bobSession)) (js ''0000000000000000000000ff'')
       = (Send 404 ''Not found.'', campus (Some bobSession))"
    by blast
  from rule [where rid = "js ''abc''" and it = blueBottle] broken
  have thrown:
    "postItemUpdate000 castObjectId (\<lambda>f. None) 200 (campus (Some bobSession)) (js ''abc'')
         keysForm None
       = (Send 500 ''Error updating item'', campus (Some bobSession))
     \<and> postItemDelete000 castObjectId (campus (Some bobSession)) (js ''abc'')
       = (Send 500 ''Error deleting item.'', campus (Some bobSession))"
    by blast
  from sess there other forbidden absent notfound broken thrown show ?thesis by blast
qed

text \<open>
  The claim as it was stated, NotFound for every id that no stored item has, fails for an
  id that is no ObjectId: \<^verbatim>\<open>abc\<close> names no stored item, and update and delete answer 500.
\<close>

theorem non_owner_or_missing_item_rejected_counterexample:
  "castObjectId (js ''abc'') = None
   \<and> postItemUpdate000 castObjectId (\<lambda>f. None) 200 (campus (Some annSession)) (js ''abc'')
         keysForm None
       = (Send 500 ''Error updating item'', campus (Some annSession))
   \<and> postItemDelete000 castObjectId (campus (Some annSession)) (js ''abc'')
       = (Send 500 ''Error deleting item.'', campus (Some annSession))"
  by (simp add: postItemUpdate000_def postItemDelete000_def findById_def campus_def string_defs)

text \<open>
  Claim C8, as the code has it. After a successful update (the answer is the redirect to
  the poster's own list) the stored item has: name, description, category and university
  equal to the submitted values with the white space at both ends removed; status, contact
  email and contact phone equal to the submitted values; the image URL of the old item
  when no file came with the request and the URL the image host returned when one did;
  and the reporter, the creation time and the id of the old item.
\<close>

theorem update_overwrites_trimmed_fields:
  assumes "postItemUpdate000 cast upload now s rid b reqFile = (Redirect ''/my-posts'', s')"
  shows "\<exists>old new.
           findById cast (items s) rid = Inr (Some old)
         \<and> findById cast (items s') rid = Inr (Some new)
         \<and> name new = trim (assigned (b_itemName b))
         \<and> description new = trim (assigned (b_description b))
         \<and> status new = assigned (b_status b)
         \<and> category new = trim (assigned (b_category b))
         \<and> university new = trim (assigned (b_university b))
         \<and> contactEmail new = assigned (b_contactEmail b)
         \<and> contactPhone new = assigned (b_contactPhone b)
         \<and> (case reqFile of None \<Rightarrow> imageUrl new = imageUrl old
                         | Some bytes \<Rightarrow> upload bytes = Some (imageUrl new))
         \<and> reportedBy new = reportedBy old
         \<and> createdAt new = createdAt old
         \<and> item_id new = item_id old"
proof -
  from assms obtain su where su: "session s = Some su"
    by (auto simp: postItemUpdate000_def split: option.splits)
  from assms su obtain old where old: "findById cast (items s) rid = Inr (Some old)"
    by (auto simp: postItemUpdate000_def split: sum.splits option.splits)
  from assms su old have own: "reportedBy old = sess_id su"
    by (auto simp: postItemUpdate000_def split: if_splits)
  from assms su old own obtain it' where up: "uploadImage upload reqFile (assignForm old b) = Inr it'"
    by (auto simp: postItemUpdate000_def split: sum.splits)
  from assms su old own up obtain xs where sv: "saveItem now (items s) old it' = Inr xs"
    and s': "s' = s\<lparr>items := xs\<rparr>"
    by (auto simp: postItemUpdate000_def split: sum.splits)
  define new where "new = (if it' = old then it' else it'\<lparr>updatedAt := now\<rparr>)"
  from sv have xs: "xs = replaceById (item_id old) new (items s)"
    by (auto simp: saveItem_def new_def split: if_splits)
  from old obtain i where i: "cast rid = Some i"
    and fnd: "find (\<lambda>x. item_id x = i) (items s) = Some old"
    by (auto simp: findById_def split: option.splits)
  from fnd have idold: "item_id old = i"
    by (auto simp: find_Some_iff)
  note fr = uploadImage_frame [OF up]
  have idnew: "item_id new = i"
    using idold fr(1) by (simp add: new_def assignForm_def)
  have found: "findById cast (items s') rid = Inr (Some new)"
    using find_replaceById [OF fnd idnew] i by (simp add: s' xs idold findById_def)
  have fields: "name new = trim (assigned (b_itemName b))"
      "description new = trim (assigned (b_description b))"
      "status new = assigned (b_status b)"
      "category new = trim (assigned (b_category b))"
      "university new = trim (assigned (b_university b))"
      "contactEmail new = assigned (b_contactEmail b)"
      "contactPhone new = assigned (b_contactPhone b)"
      "reportedBy new = reportedBy old"
      "createdAt new = createdAt old"
      "item_id new = item_id old"
    using fr(1-10) by (auto simp: new_def assignForm_def assignedTrim_def)
  have img: "(case reqFile of None \<Rightarrow> imageUrl new = imageUrl old
                 | Some bytes \<Rightarrow> upload bytes = Some (imageUrl new))"
    using fr(12) by (auto simp: new_def assignForm_def split: option.splits)
  show ?thesis
    using old found fields img by blast
qed

theorem update_overwrites_trimmed_fields_witness:
  "postItemUpdate000 castObjectId (\<lambda>f. Some (js ''https://img.example/2'')) 200
       (campus (Some annSession)) (js ''00000000000000000000000a'') keysForm (Some (js ''bytes''))
     = (Redirect ''/my-posts'', (campus (Some annSession))\<lparr>items := [foundKeys]\<rparr>)
   \<and> findById castObjectId (items (campus (Some annSession))) (js ''00000000000000000000000a'')
       = Inr (Some blueBottle)
   \<and> findById castObjectId (items ((campus (Some annSession))\<lparr>items := [foundKeys]\<rparr>))
         (js ''00000000000000000000000a'')
       = Inr (Some foundKeys)
   \<and> name foundKeys = trim (assigned (b_itemName keysForm))
   \<and> status foundKeys = assigned (b_status keysForm)
   \<and> imageUrl foundKeys = js ''https://img.example/2''
   \<and> reportedBy foundKeys = reportedBy blueBottle
   \<and> createdAt foundKeys = createdAt blueBottle"
proof -
  have run: "postItemUpdate000 castObjectId (\<lambda>f. Some (js ''https://img.example/2'')) 200
       (campus (Some annSession)) (js ''00000000000000000000000a'') keysForm (Some (js ''bytes''))
     = (Redirect ''/my-posts'', (campus (Some annSession))\<lparr>items := [foundKeys]\<rparr>)"
    by (simp add: postItemUpdate000_def store_defs sample_defs string_defs)
  have before: "findById castObjectId (items (campus (Some annSession)))
                  (js ''00000000000000000000000a'') = Inr (Some blueBottle)"
    by (simp add: findById_def campus_def blueBottle_def string_defs)
  have after: "findById castObjectId (items ((campus (Some annSession))\<lparr>items := [foundKeys]\<rparr>))
                 (js ''00000000000000000000000a'') = Inr (Some foundKeys)"
    by (simp add: findById_def foundKeys_def string_defs)
  from update_overwrites_trimmed_fields [OF run] before after
  have "name foundKeys = trim (assigned (b_itemName keysForm))
      \<and> status foundKeys = assigned (b_status keysForm)
      \<and> Some (js ''https://img.example/2'') = Some (imageUrl foundKeys)
      \<and> reportedBy foundKeys = reportedBy blueBottle
      \<and> createdAt foundKeys = createdAt blueBottle"
    by auto
  with run before after show ?thesis by simp
qed

text \<open>
  The claim as it was stated, that the name is overwritten with the submitted value, fails:
  the schema trims it, so the submitted name \<^verbatim>\<open> Keys \<close> is stored as \<^verbatim>\<open>Keys\<close>.
\<close>

theorem update_overwrites_trimmed_fields_counterexample:
  "b_itemName keysForm = Some (js '' Keys '')
   \<and> fst (postItemUpdate000 castObjectId (\<lambda>f. None) 200 (campus (Some annSession))
            (js ''00000000000000000000000a'') keysForm None)
       = Redirect ''/my-posts''
   \<and> map name (items (snd (postItemUpdate000 castObjectId (\<lambda>f. None) 200
                              (campus (Some annSession)) (js ''00000000000000000000000a'')
                              keysForm None)))
       = [js ''Keys'']"
  by (simp add: postItemUpdate000_def store_defs sample_defs string_defs)

subsection \<open>Listing items: the missing university\<close>

text \<open>
  Claim C7, as the code has it. When the university parameter is absent or empty, no item
  list is computed: the answer does not depend on the item collection and the state is
  unchanged. The server of part_001 redirects to the home page. The server of part_000
  redirects to the home page when a user is logged in, and to
  \<^verbatim>\<open>/login?error=must_login\<close> when none is.
\<close>

theorem items_without_university_redirect:
  assumes "\<not> truthy uni"
  shows "getItems001 rx s uni st search = (Redirect ''/'', s)
       \<and> getItems000 rx s uni st search =
           (Redirect (if session s = None then ''/login?error=must_login'' else ''/''), s)
       \<and> fst (getItems000 rx (s\<lparr>items := xs\<rparr>) uni st search) = fst (getItems000 rx s uni st search)
       \<and> fst (getItems001 rx (s\<lparr>items := xs\<rparr>) uni st search) = fst (getItems001 rx s uni st search)"
  using assms by (simp add: getItems000_def getItems001_def)

theorem items_without_university_redirect_witness:
  "\<not> truthy None
   \<and> getItems001 rxLite (campus None) None (Some (js ''Lost'')) None = (Redirect ''/'', campus None)
   \<and> getItems000 rxLite (campus (Some annSession)) None (Some (js ''Lost'')) None
       = (Redirect ''/'', campus (Some annSession))
   \<and> getItems000 rxLite (campus None) None (Some (js ''Lost'')) None
       = (Redirect ''/login?error=must_login'', campus None)"
  using items_without_university_redirect
          [where uni = None and rx = rxLite and s = "campus None" and st = "Some (js ''Lost'')"
             and search = None]
        items_without_university_redirect
          [where uni = None and rx = rxLite and s = "campus (Some annSession)"
             and st = "Some (js ''Lost'')" and search = None]
  by (simp add: campus_def)

text \<open>
  The claim as it was stated, a redirect to the home page for every such request, fails in
  part_000 for a request without a session.
\<close>

theorem items_without_university_counterexample:
  "\<not> truthy None
   \<and> fst (getItems000 rxLite (campus None) None None None) = Redirect ''/login?error=must_login''
   \<and> fst (getItems000 rxLite (campus None) None None None) \<noteq> Redirect ''/''"
  by (simp add: getItems000_def campus_def)

subsection \<open>Patterns without special characters\<close>

text \<open>
  On such a pattern the fragment engine, with the flag \<^verbatim>\<open>i\<close>, is the search the
  specification describes: the plain pattern finds the strings that contain it, and the
  pattern between \<^verbatim>\<open>^\<close> and \<^verbatim>\<open>$\<close> finds the strings equal to it, letter case ignored in
  both.
\<close>

lemma isLiteral_no_dot: "isLiteral p \<Longrightarrow> of_char (CHR ''.'') \<notin> set p"
  by (auto simp: isLiteral_def list_all_iff metachars_def)

lemma isLiteral_body:
  "isLiteral p \<Longrightarrow>
     \<not> (\<exists>c \<in> set p. 128 \<le> c \<or> (c \<noteq> of_char (CHR ''.'') \<and> c \<in> set metachars))"
  by (auto simp: isLiteral_def list_all_iff)

lemma matchHere_literal:
  "of_char (CHR ''.'') \<notin> set ps \<Longrightarrow> matchHere True ps v = prefixCI ps v"
  by (induction ps v rule: prefixCI.induct) (auto simp: atomMatch_def)

lemma matchWhole_literal:
  "of_char (CHR ''.'') \<notin> set ps \<Longrightarrow> v = [] \<or> last v \<noteq> 0x0A
     \<Longrightarrow> matchWhole True ps v = (lower ps = lower v)"
proof (induction ps v rule: prefixCI.induct)
  case (1 v)
  then show ?case by (auto simp: lower_def)
next
  case (2 p ps)
  then show ?case by (simp add: lower_def)
next
  case (3 p ps c cs)
  from "3.prems" have "cs = [] \<or> last cs \<noteq> 0x0A" by (cases cs) auto
  with "3.IH" "3.prems" have "matchWhole True ps cs = (lower ps = lower cs)" by simp
  with "3.prems" show ?case by (auto simp: atomMatch_def lower_def)
qed

lemma rxLite_literal:
  assumes "isLiteral p"
  shows "readsAsText rxLite p vs"
proof -
  have front: "\<not> (p \<noteq> [] \<and> hd p = of_char (CHR ''^''))"
  proof
    assume "p \<noteq> [] \<and> hd p = of_char (CHR ''^'')"
    then have "of_char (CHR ''^'') \<in> set p" by (metis hd_in_set)
    with assms show False by (auto simp: isLiteral_def list_all_iff metachars_def)
  qed
  have rear: "\<not> (p \<noteq> [] \<and> last p = of_char (CHR ''$''))"
  proof
    assume "p \<noteq> [] \<and> last p = of_char (CHR ''$'')"
    then have "of_char (CHR ''$'') \<in> set p" by (metis last_in_set)
    with assms show False by (auto simp: isLiteral_def list_all_iff metachars_def)
  qed
  have same: "matchHere True p = prefixCI p"
    using matchHere_literal [OF isLiteral_no_dot [OF assms]] by (intro ext)
  have engine: "rxLite p ''i'' = Some (\<lambda>v. searchWith (matchHere True p) v)"
    unfolding rxLite_def Let_def using front rear isLiteral_body [OF assms] by auto
  show ?thesis
    by (simp add: readsAsText_def engine same containsCI_def list_all_iff)
qed

lemma rxLite_anchored_literal:
  assumes "isLiteral n" and "list_all (\<lambda>u. u = [] \<or> last u \<noteq> 0x0A) us"
  shows "readsAsName rxLite n us"
proof -
  have whole: "rxLite (js ''^'' @ n @ js ''$'') ''i'' = Some (matchWhole True n)"
    unfolding rxLite_def Let_def using isLiteral_body [OF assms(1)] by (simp add: js_def)
  have same: "list_all (\<lambda>u. matchWhole True n u = sameNameCI n u) us"
    using assms(2) matchWhole_literal [OF isLiteral_no_dot [OF assms(1)]]
    by (auto simp: list_all_iff sameNameCI_def)
  show ?thesis
    using whole same by (simp add: readsAsName_def)
qed

subsection \<open>Adding a university\<close>

text \<open>
  Where the existence check works. Let a user be logged in, let \<open>n\<close> be a non-empty name
  that \<^verbatim>\<open>trim\<close> leaves as it is, let \<open>m\<close> equal \<open>n\<close> up to letter case, and let the engine
  read \<^verbatim>\<open>^n$\<close> and \<^verbatim>\<open>^m$\<close> as these names on \<open>n\<close> and on the registered names. Then
  adding \<open>n\<close> and then \<open>m\<close> appends the one entry \<open>n\<close> when no registered name equals \<open>n\<close>
  up to letter case, and changes nothing when one does.
\<close>

lemma addUniversity_plain_name:
  assumes "session s = Some su"
    and "n \<noteq> []" and "trim n = n"
    and "sameNameCI m n"
    and "readsAsName rx n (n # universities s)"
    and "readsAsName rx m (n # universities s)"
  shows "snd (postAddUniversity000 rx (snd (postAddUniversity000 rx s (Some n))) (Some m))
           = (if \<exists>u \<in> set (universities s). sameNameCI n u then s
              else s\<lparr>universities := universities s @ [n]\<rparr>)"
proof -
  from assms(5) obtain f where f: "rx (js ''^'' @ n @ js ''$'') ''i'' = Some f"
    and fs: "\<forall>u \<in> set (universities s). f u = sameNameCI n u"
    by (auto simp: readsAsName_def list_all_iff split: option.splits)
  from assms(6) obtain g where g: "rx (js ''^'' @ m @ js ''$'') ''i'' = Some g"
    and gn: "g n = sameNameCI m n"
    and gs: "\<forall>u \<in> set (universities s). g u = sameNameCI m u"
    by (auto simp: readsAsName_def list_all_iff split: option.splits)
  have mn: "sameNameCI m = sameNameCI n"
    using assms(4) by (intro ext) (auto simp: sameNameCI_def)
  show ?thesis
  proof (cases "\<exists>u \<in> set (universities s). sameNameCI n u")
    case True
    then have "find f (universities s) \<noteq> None" "find g (universities s) \<noteq> None"
      using fs gs mn by (auto simp: find_None_iff)
    then obtain y z where "find f (universities s) = Some y" "find g (universities s) = Some z"
      by blast
    with True show ?thesis
      using assms(1) f g by (simp add: postAddUniversity000_def Let_def)
  next
    case False
    then have absent: "find f (universities s) = None"
      using fs by (auto simp: find_None_iff)
    have notin: "n \<notin> set (universities s)"
      using False by (auto simp: sameNameCI_def)
    have saved: "saveUniversity (universities s) n = Inr (universities s @ [n])"
      using assms(2,3) notin by (simp add: saveUniversity_def Let_def)
    have first: "postAddUniversity000 rx s (Some n)
                   = (Redirect ''/'', s\<lparr>universities := universities s @ [n]\<rparr>)"
      using assms(1,2) f absent saved by (simp add: postAddUniversity000_def Let_def)
    have "find g (universities s @ [n]) \<noteq> None"
      using assms(4) gn by (auto simp: find_None_iff)
    then obtain y where present: "find g (universities s @ [n]) = Some y"
      by blast
    have second: "postAddUniversity000 rx (s\<lparr>universities := universities s @ [n]\<rparr>) (Some m)
                   = (Redirect ''/'', s\<lparr>universities := universities s @ [n]\<rparr>)"
      using assms(1) g present by (simp add: postAddUniversity000_def Let_def)
    from False first second show ?thesis by simp
  qed
qed

text \<open>
  Claim C5: where the code departs from it. The handler means to check for an existing name
  without regard to letter case (its comment says so), but it builds the pattern from the
  name as typed, neither trimmed nor escaped. A name with a leading blank is stored
  trimmed, so its own pattern does not find it again, and a second spelling is stored
  next to it: two entries that differ in letter case only. A name with the wildcard \<^verbatim>\<open>.\<close>
  is taken for present when a different name matches the pattern, and is never stored.
  The run of the claim itself, \<^verbatim>\<open>MIT\<close> and then \<^verbatim>\<open>mit\<close>, leaves the one entry.
\<close>

theorem add_university_failing_runs:
  "universities (snd (postAddUniversity000 rxLite
       (snd (postAddUniversity000 rxLite (campus (Some annSession)) (Some (js '' MIT''))))
       (Some (js '' mit'')))) = [js ''MIT'', js ''mit'']
   \<and> sameNameCI (js ''MIT'') (js ''mit'')
   \<and> universities (snd (postAddUniversity000 rxLite
       (snd (postAddUniversity000 rxLite ((campus (Some annSession))\<lparr>universities := [js ''AxB'']\<rparr>)
              (Some (js ''A.B''))))
       (Some (js ''a.b'')))) = [js ''AxB'']
   \<and> universities (snd (postAddUniversity000 rxLite
       (snd (postAddUniversity000 rxLite (campus (Some annSession)) (Some (js ''MIT''))))
       (Some (js ''mit'')))) = [js ''MIT'']"
  by (simp add: postAddUniversity000_def saveUniversity_def campus_def regex_defs string_defs)

subsection \<open>Listing the items of a university\<close>

lemma findSorted_ok:
  assumes "case q_name q of None \<Rightarrow> True | Some p \<Rightarrow> rx p ''i'' = Some m"
  shows "\<exists>found. findSorted rx xs q = Inr found
     \<and> mset found = filter_mset (\<lambda>i. university i = trim (q_university q)
                              \<and> (case q_status q of None \<Rightarrow> True | Some w \<Rightarrow> status i = w)
                              \<and> (case q_name q of None \<Rightarrow> True | Some p \<Rightarrow> m (name i))) (mset xs)
     \<and> sorted_wrt (\<lambda>a b. createdAt b \<le> createdAt a) found"
  using assms
  by (cases "q_name q") (simp_all add: findSorted_def mset_newestFirst sorted_newestFirst)

lemma getItems000_bad_pattern:
  assumes "session s = Some su" and "truthy uni" and "truthy search"
    and "rx (assigned search) ''i'' = None"
  shows "getItems000 rx s uni st search = (Send 500 ''Error fetching items.'', s)"
  using assms
  by (cases search) (simp_all add: getItems000_def findSorted_def buildQuery_def)

text \<open>
  Claim C4, as the code has it. Let a user be logged in, let the university \<open>X\<close> be
  non-empty, and let the search string, when a non-empty one is given, be one that the
  engine reads as plain text on the names of the stored items (it does when the string has
  no special character, see \<open>rxLite_literal\<close>). Then \<^verbatim>\<open>GET /items\<close> renders exactly the
  stored items (as a multiset) whose university is \<open>X\<close> with the white space at both ends
  removed, whose status is the status filter when a non-empty one is given, and whose name
  contains the search string, letter case ignored, when one is given. The list is ordered
  by creation time, newest first, and holds no item of another university.
\<close>

theorem items_listing:
  assumes "session s = Some su" and "truthy uni"
    and "truthy search \<longrightarrow> readsAsText rx (assigned search) (map name (items s))"
  shows "\<exists>found. getItems000 rx s uni st search = (RenderItems found (assigned uni) st search, s)
     \<and> mset found = filter_mset (\<lambda>i. university i = trim (assigned uni)
                              \<and> (truthy st \<longrightarrow> Some (status i) = st)
                              \<and> (truthy search \<longrightarrow> containsCI (assigned search) (name i)))
                       (mset (items s))
     \<and> sorted_wrt (\<lambda>a b. createdAt b \<le> createdAt a) found
     \<and> (\<forall>i \<in> set found. university i = trim (assigned uni))"
proof -
  define q where "q = buildQuery (assigned uni) st search"
  obtain m where qn: "case q_name q of None \<Rightarrow> True | Some p \<Rightarrow> rx p ''i'' = Some m"
    and agree: "truthy search \<longrightarrow> (\<forall>i \<in> set (items s). m (name i) = containsCI (assigned search) (name i))"
  proof (cases "truthy search")
    case True
    with assms(3) obtain f where f: "rx (assigned search) ''i'' = Some f"
      and fs: "\<forall>v \<in> set (map name (items s)). f v = containsCI (assigned search) v"
      by (auto simp: readsAsText_def list_all_iff split: option.splits)
    from True f have "case q_name q of None \<Rightarrow> True | Some p \<Rightarrow> rx p ''i'' = Some f"
      by (cases search) (auto simp: q_def buildQuery_def)
    moreover from fs have "truthy search \<longrightarrow>
        (\<forall>i \<in> set (items s). f (name i) = containsCI (assigned search) (name i))"
      by simp
    ultimately show ?thesis by (rule that)
  next
    case False
    then have "case q_name q of None \<Rightarrow> True | Some p \<Rightarrow> rx p ''i'' = Some (\<lambda>v. True)"
      by (simp add: q_def buildQuery_def)
    moreover from False have "truthy search \<longrightarrow>
        (\<forall>i \<in> set (items s). (\<lambda>v. True) (name i) = containsCI (assigned search) (name i))"
      by simp
    ultimately show ?thesis by (rule that)
  qed
  from findSorted_ok [where q = q and rx = rx and m = m and xs = "items s"] qn
  obtain found where
    f: "findSorted rx (items s) q = Inr found"
    and ms: "mset found = filter_mset (\<lambda>i. university i = trim (q_university q)
                              \<and> (case q_status q of None \<Rightarrow> True | Some w \<Rightarrow> status i = w)
                              \<and> (case q_name q of None \<Rightarrow> True | Some p \<Rightarrow> m (name i))) (mset (items s))"
    and so: "sorted_wrt (\<lambda>a b. createdAt b \<le> createdAt a) found"
    by blast
  have pred: "\<forall>i \<in> set (items s).
              (university i = trim (q_university q)
                 \<and> (case q_status q of None \<Rightarrow> True | Some w \<Rightarrow> status i = w)
                 \<and> (case q_name q of None \<Rightarrow> True | Some p \<Rightarrow> m (name i)))
            = (university i = trim (assigned uni)
                 \<and> (truthy st \<longrightarrow> Some (status i) = st)
                 \<and> (truthy search \<longrightarrow> containsCI (assigned search) (name i)))"
    using agree by (cases st; cases search) (auto simp: q_def buildQuery_def)
  have ms': "mset found = filter_mset (\<lambda>i. university i = trim (assigned uni)
                              \<and> (truthy st \<longrightarrow> Some (status i) = st)
                              \<and> (truthy search \<longrightarrow> containsCI (assigned search) (name i)))
                            (mset (items s))"
    unfolding ms using pred by (intro filter_mset_cong) auto
  have all: "\<forall>i \<in> set found. university i = trim (assigned uni)"
  proof
    fix i assume "i \<in> set found"
    then have "i \<in># mset found" by simp
    then show "university i = trim (assigned uni)" by (simp only: ms') simp
  qed
  have run: "getItems000 rx s uni st search = (RenderItems found (assigned uni) st search, s)"
    using assms(1,2) f by (simp add: getItems000_def q_def)
  from run ms' so all show ?thesis by blast
qed

theorem items_listing_witness:
  "session busyCampus = Some annSession
   \<and> truthy (Some (js ''MIT '')) \<and> truthy (Some (js ''blue''))
   \<and> readsAsText rxLite (assigned (Some (js ''blue''))) (map name (items busyCampus))
   \<and> getItems000 rxLite busyCampus (Some (js ''MIT '')) (Some (js ''Lost'')) (Some (js ''blue''))
       = (RenderItems [blueScarf, blueBottle] (js ''MIT '') (Some (js ''Lost''))
            (Some (js ''blue'')), busyCampus)
   \<and> mset [blueScarf, blueBottle]
       = filter_mset (\<lambda>i. university i = trim (js ''MIT '') \<and> status i = js ''Lost''
                          \<and> containsCI (js ''blue'') (name i))
           (mset [blueBottle, redPen, blueScarf, blueCap, greenBag])
   \<and> createdAt blueBottle \<le> createdAt blueScarf
   \<and> university blueScarf = trim (js ''MIT '') \<and> university blueBottle = trim (js ''MIT '')"
proof -
  have a: "session busyCampus = Some annSession" by (simp add: busyCampus_def)
  have b: "truthy (Some (js ''MIT ''))" "truthy (Some (js ''blue''))" by simp_all
  have c: "readsAsText rxLite (assigned (Some (js ''blue''))) (map name (items busyCampus))"
    by (simp, rule rxLite_literal) (simp add: isLiteral_def metachars_def js_def)
  have c': "truthy (Some (js ''blue'')) \<longrightarrow>
              readsAsText rxLite (assigned (Some (js ''blue''))) (map name (items busyCampus))"
    using c by simp
  have run: "getItems000 rxLite busyCampus (Some (js ''MIT '')) (Some (js ''Lost''))
               (Some (js ''blue''))
       = (RenderItems [blueScarf, blueBottle] (js ''MIT '') (Some (js ''Lost''))
            (Some (js ''blue'')), busyCampus)"
    by (simp add: getItems000_def store_defs regex_defs sample_defs string_defs)
  have its: "items busyCampus = [blueBottle, redPen, blueScarf, blueCap, greenBag]"
    by (simp add: busyCampus_def)
  from items_listing
         [where rx = rxLite and s = busyCampus and su = annSession
            and uni = "Some (js ''MIT '')" and st = "Some (js ''Lost'')"
            and search = "Some (js ''blue'')"] a b c'
  obtain found where
    r: "getItems000 rxLite busyCampus (Some (js ''MIT '')) (Some (js ''Lost'')) (Some (js ''blue''))
          = (RenderItems found (assigned (Some (js ''MIT ''))) (Some (js ''Lost''))
               (Some (js ''blue'')), busyCampus)"
    and m: "mset found = filter_mset (\<lambda>i. university i = trim (assigned (Some (js ''MIT '')))
                              \<and> (truthy (Some (js ''Lost'')) \<longrightarrow> Some (status i) = Some (js ''Lost''))
                              \<and> (truthy (Some (js ''blue'')) \<longrightarrow>
                                   containsCI (assigned (Some (js ''blue''))) (name i)))
                 (mset (items busyCampus))"
    and so: "sorted_wrt (\<lambda>a b. createdAt b \<le> createdAt a) found"
    and un: "\<forall>i \<in> set found. university i = trim (assigned (Some (js ''MIT '')))"
    by blast
  from r run have found: "found = [blueScarf, blueBottle]" by simp
  have pred: "(\<lambda>i. university i = trim (assigned (Some (js ''MIT '')))
                  \<and> (truthy (Some (js ''Lost'')) \<longrightarrow> Some (status i) = Some (js ''Lost''))
                  \<and> (truthy (Some (js ''blue'')) \<longrightarrow>
                       containsCI (assigned (Some (js ''blue''))) (name i)))
            = (\<lambda>i. university i = trim (js ''MIT '') \<and> status i = js ''Lost''
                  \<and> containsCI (js ''blue'') (name i))"
    by (rule ext) simp
  from m have m': "mset [blueScarf, blueBottle]
       = filter_mset (\<lambda>i. university i = trim (js ''MIT '') \<and> status i = js ''Lost''
                          \<and> containsCI (js ''blue'') (name i))
           (mset [blueBottle, redPen, blueScarf, blueCap, greenBag])"
    unfolding found its pred .
  from so have order: "createdAt blueBottle \<le> createdAt blueScarf"
    by (simp add: found)
  from un have where_: "university blueScarf = trim (js ''MIT '')
                        \<and> university blueBottle = trim (js ''MIT '')"
    by (simp add: found)
  from a b c run m' order where_ show ?thesis by blast
qed

text \<open>
  The claim as it was stated fails twice. The university asked for is trimmed before the
  comparison, so \<^verbatim>\<open> MIT\<close> (with a blank in front) lists the item whose university is
  \<^verbatim>\<open>MIT\<close>, which is not the value asked for. And the search string is a pattern: \<^verbatim>\<open>bl.e\<close>
  finds the item named \<^verbatim>\<open>Blue Bottle\<close>, which does not contain it.
\<close>

theorem items_listing_counterexample:
  "fst (getItems000 rxLite (campus (Some annSession)) (Some (js '' MIT'')) None None)
     = RenderItems [blueBottle] (js '' MIT'') None None
   \<and> university blueBottle \<noteq> js '' MIT''
   \<and> fst (getItems000 rxLite (campus (Some annSession)) (Some (js ''MIT'')) (Some (js ''Lost''))
            (Some (js ''bl.e'')))
     = RenderItems [blueBottle] (js ''MIT'') (Some (js ''Lost'')) (Some (js ''bl.e''))
   \<and> \<not> containsCI (js ''bl.e'') (name blueBottle)"
  by (simp add: getItems000_def store_defs regex_defs sample_defs string_defs)

end
